theory Spec2Isabelle
  imports Complex_Main "HOL-Library.Sublist"
begin

section \<open>Python strings\<close>

text \<open>
  A Python \<open>str\<close> is modelled as a \<open>string\<close> whose characters stand for the code points
  below 256. The character classes below are those of CPython 3.11 on that range:
  \<open>str.isspace\<close> (also the class \<open>\s\<close> of \<open>re\<close>), the class \<open>\d\<close> of \<open>re\<close>,
  \<open>str.isdigit\<close> (which also accepts the superscript digits), and \<open>str.lower\<close>.
  The operator \<open>in\<close> on strings is \<open>sublist\<close>, \<open>startswith\<close> is \<open>prefix\<close> and
  \<open>endswith\<close> is \<open>suffix\<close>.
\<close>

definition code :: "char \<Rightarrow> nat" where
  "code c = of_char c"

definition is_space :: "char \<Rightarrow> bool" where
  "is_space c = (code c \<in> {9, 10, 11, 12, 13, 28, 29, 30, 31, 32, 133, 160})"

definition re_digit :: "char \<Rightarrow> bool" where
  "re_digit c = (48 \<le> code c \<and> code c \<le> 57)"

definition isdigit_char :: "char \<Rightarrow> bool" where
  "isdigit_char c = (re_digit c \<or> code c \<in> {178, 179, 185})"

definition isdigit :: "string \<Rightarrow> bool" where
  "isdigit s = (s \<noteq> [] \<and> list_all isdigit_char s)"

definition ascii_upper :: "char \<Rightarrow> bool" where
  "ascii_upper c = (65 \<le> code c \<and> code c \<le> 90)"

definition ascii_lower :: "char \<Rightarrow> bool" where
  "ascii_lower c = (97 \<le> code c \<and> code c \<le> 122)"

definition ascii_alpha :: "char \<Rightarrow> bool" where
  "ascii_alpha c = (ascii_upper c \<or> ascii_lower c)"

definition lower_char :: "char \<Rightarrow> char" where
  "lower_char c =
     (if ascii_upper c \<or> (192 \<le> code c \<and> code c \<le> 222 \<and> code c \<noteq> 215)
      then char_of (code c + 32) else c)"

definition lower :: "string \<Rightarrow> string" where
  "lower s = map lower_char s"

definition lstrip_of :: "(char \<Rightarrow> bool) \<Rightarrow> string \<Rightarrow> string" where
  "lstrip_of P s = dropWhile P s"

definition rstrip_of :: "(char \<Rightarrow> bool) \<Rightarrow> string \<Rightarrow> string" where
  "rstrip_of P s = rev (dropWhile P (rev s))"

definition strip_of :: "(char \<Rightarrow> bool) \<Rightarrow> string \<Rightarrow> string" where
  "strip_of P s = rstrip_of P (lstrip_of P s)"

definition strip :: "string \<Rightarrow> string" where
  "strip s = strip_of is_space s"

text \<open>\<open>s.split(d)\<close> for a one-character separator: empty pieces are kept.\<close>

fun split_on :: "char \<Rightarrow> string \<Rightarrow> string list" where
  "split_on d [] = [[]]"
| "split_on d (c # cs) =
     (if c = d then [] # split_on d cs
      else (case split_on d cs of [] \<Rightarrow> [[c]] | w # ws \<Rightarrow> (c # w) # ws))"

text \<open>\<open>[segment for segment in path.split("/") if segment]\<close>\<close>

definition path_segments :: "string \<Rightarrow> string list" where
  "path_segments path = filter (\<lambda>segment. segment \<noteq> []) (split_on CHR ''/'' path)"

text \<open>\<open>sep.join(parts)\<close> for a one-character separator.\<close>

fun join_with :: "char \<Rightarrow> string list \<Rightarrow> string" where
  "join_with d [] = []"
| "join_with d [w] = w"
| "join_with d (w # v # ws) = w @ d # join_with d (v # ws)"

text \<open>
  \<open>s.replace(old, new)\<close>: the occurrences of \<open>old\<close> are replaced from the left, without
  overlap. The source only calls it with a non-empty \<open>old\<close>; for an empty one the model
  returns \<open>s\<close>.
\<close>

fun replace :: "string \<Rightarrow> string \<Rightarrow> string \<Rightarrow> string" where
  "replace old new [] = []"
| "replace old new (c # cs) =
     (if old \<noteq> [] \<and> prefix old (c # cs)
      then new @ replace old new (drop (length old - 1) cs)
      else c # replace old new cs)"

text \<open>
  The anchor \<open>$\<close> of \<open>re\<close> (without \<open>MULTILINE\<close>) matches at the end of the string and
  just before a newline that ends the string; \<open>re_end rest\<close> says that \<open>$\<close> matches where
  \<open>rest\<close> is what remains of the subject.
\<close>

definition re_end :: "string \<Rightarrow> bool" where
  "re_end rest = (rest = [] \<or> rest = [char_of (10::nat)])"

section \<open>Exceptions\<close>

text \<open>
  The exceptions that the modelled functions raise. \<open>RequestException\<close> stands for the
  HTTP client's family of errors (connection failures and \<open>raise_for_status\<close>); the two
  typed errors of the repository carry their message.
\<close>

datatype exn =
    ValueError
  | AttributeError
  | RequestException
  | ResolutionError string
  | ProfileCollectionError string

section \<open>urllib.parse\<close>

text \<open>
  The library functions \<open>urlsplit\<close>, \<open>urlparse\<close>, \<open>urlunparse\<close> and \<open>urljoin\<close> follow
  CPython 3.11. \<open>urlsplit\<close> raises \<open>ValueError\<close> when the network location has a square
  bracket of one kind only, or when the text between the brackets is rejected by the
  library's address check; that check is the parameter \<open>bh\<close> (true when the bracketed
  host is accepted). The NFKC check of the network location never fails on code points
  below 256 and is left out.
\<close>

record parse_result =
  scheme :: string
  netloc :: string
  path :: string
  params :: string
  query :: string
  fragment :: string

definition uses_relative :: "string list" where
  "uses_relative = ['''', ''ftp'', ''http'', ''gopher'', ''nntp'', ''imap'',
     ''wais'', ''file'', ''https'', ''shttp'', ''mms'',
     ''prospero'', ''rtsp'', ''rtsps'', ''rtspu'', ''sftp'',
     ''svn'', ''svn+ssh'', ''ws'', ''wss'']"

definition uses_netloc :: "string list" where
  "uses_netloc = ['''', ''ftp'', ''http'', ''gopher'', ''nntp'', ''telnet'',
     ''imap'', ''wais'', ''file'', ''mms'', ''https'', ''shttp'',
     ''snews'', ''prospero'', ''rtsp'', ''rtsps'', ''rtspu'', ''rsync'',
     ''svn'', ''svn+ssh'', ''sftp'', ''nfs'', ''git'', ''git+ssh'',
     ''ws'', ''wss'']"

definition uses_params :: "string list" where
  "uses_params = ['''', ''ftp'', ''hdl'', ''prospero'', ''http'', ''imap'',
     ''https'', ''shttp'', ''rtsp'', ''rtsps'', ''rtspu'', ''sip'',
     ''sips'', ''mms'', ''sftp'', ''tel'']"

definition c0_or_space :: "char \<Rightarrow> bool" where
  "c0_or_space c = (code c \<le> 32)"

definition unsafe_byte :: "char \<Rightarrow> bool" where
  "unsafe_byte c = (code c \<in> {9, 13, 10})"

definition scheme_char :: "char \<Rightarrow> bool" where
  "scheme_char c = (ascii_alpha c \<or> re_digit c \<or> c \<in> {CHR ''+'', CHR ''-'', CHR ''.''})"

text \<open>\<open>s.split(d, 1)\<close> when \<open>d\<close> occurs in \<open>s\<close>: the text before and after the first \<open>d\<close>.\<close>

definition before :: "char \<Rightarrow> string \<Rightarrow> string" where
  "before d s = takeWhile (\<lambda>c. c \<noteq> d) s"

definition after :: "char \<Rightarrow> string \<Rightarrow> string" where
  "after d s = drop 1 (dropWhile (\<lambda>c. c \<noteq> d) s)"

definition netloc_delim :: "char \<Rightarrow> bool" where
  "netloc_delim c = (c \<in> {CHR ''/'', CHR ''?'', CHR ''#''})"

definition urlsplit :: "(string \<Rightarrow> bool) \<Rightarrow> string \<Rightarrow> string \<Rightarrow> exn + parse_result" where
  "urlsplit bh url0 scheme0 =
     (let url1 = filter (\<lambda>c. \<not> unsafe_byte c) (lstrip_of c0_or_space url0);
          scheme1 = filter (\<lambda>c. \<not> unsafe_byte c) (strip_of c0_or_space scheme0);
          pre = before CHR '':'' url1;
          has_scheme = (CHR '':'' \<in> set url1 \<and> pre \<noteq> [] \<and> ascii_alpha (hd url1)
                        \<and> list_all scheme_char pre);
          scheme2 = (if has_scheme then lower pre else scheme1);
          url2 = (if has_scheme then after CHR '':'' url1 else url1);
          has_netloc = (take 2 url2 = ''//'');
          netloc2 = (if has_netloc then takeWhile (\<lambda>c. \<not> netloc_delim c) (drop 2 url2) else []);
          url3 = (if has_netloc then dropWhile (\<lambda>c. \<not> netloc_delim c) (drop 2 url2) else url2);
          lb = (CHR ''['' \<in> set netloc2);
          rb = (CHR '']'' \<in> set netloc2)
      in if has_netloc \<and> lb \<noteq> rb then Inl ValueError
         else if has_netloc \<and> lb \<and> rb
                 \<and> \<not> bh (before CHR '']'' (after CHR ''['' netloc2)) then Inl ValueError
         else
           (let fragment2 = (if CHR ''#'' \<in> set url3 then after CHR ''#'' url3 else []);
                url4 = (if CHR ''#'' \<in> set url3 then before CHR ''#'' url3 else url3);
                query2 = (if CHR ''?'' \<in> set url4 then after CHR ''?'' url4 else []);
                url5 = (if CHR ''?'' \<in> set url4 then before CHR ''?'' url4 else url4)
            in Inr \<lparr> scheme = scheme2, netloc = netloc2, path = url5, params = [],
                     query = query2, fragment = fragment2 \<rparr>))"

text \<open>
  \<open>_splitparams\<close>: the parameters are what follows the first \<open>;\<close> of the last path
  segment.
\<close>

definition last_segment :: "string \<Rightarrow> string" where
  "last_segment url = rev (takeWhile (\<lambda>c. c \<noteq> CHR ''/'') (rev url))"

definition splitparams :: "string \<Rightarrow> string \<times> string" where
  "splitparams url =
     (if CHR ''/'' \<in> set url then
        (let tail = last_segment url;
             head = take (length url - length tail) url
         in if CHR '';'' \<in> set tail
            then (head @ before CHR '';'' tail, after CHR '';'' tail)
            else (url, []))
      else (before CHR '';'' url, after CHR '';'' url))"

definition urlparse_with :: "(string \<Rightarrow> bool) \<Rightarrow> string \<Rightarrow> string \<Rightarrow> exn + parse_result" where
  "urlparse_with bh url scheme0 =
     (case urlsplit bh url scheme0 of
        Inl e \<Rightarrow> Inl e
      | Inr r \<Rightarrow>
          if scheme r \<in> set uses_params \<and> CHR '';'' \<in> set (path r)
          then Inr (r\<lparr> path := fst (splitparams (path r)), params := snd (splitparams (path r)) \<rparr>)
          else Inr r)"

definition urlparse :: "(string \<Rightarrow> bool) \<Rightarrow> string \<Rightarrow> exn + parse_result" where
  "urlparse bh url = urlparse_with bh url []"

text \<open>
  \<open>urlunsplit\<close>: the two slashes are put in front for a network location that is not
  empty, and for a scheme of \<open>uses_netloc\<close> unless the path itself starts with two
  slashes (\<open>netloc or (scheme and scheme in uses_netloc and url[:2] != '//')\<close>).
\<close>

definition urlunsplit :: "string \<Rightarrow> string \<Rightarrow> string \<Rightarrow> string \<Rightarrow> string \<Rightarrow> string" where
  "urlunsplit sch loc url0 qry frag =
     (let url1 = (if loc \<noteq> [] \<or> (sch \<noteq> [] \<and> sch \<in> set uses_netloc \<and> take 2 url0 \<noteq> ''//'')
                  then ''//'' @ loc @ (if url0 \<noteq> [] \<and> take 1 url0 \<noteq> ''/'' then ''/'' @ url0 else url0)
                  else url0);
          url2 = (if sch \<noteq> [] then sch @ '':'' @ url1 else url1);
          url3 = (if qry \<noteq> [] then url2 @ ''?'' @ qry else url2)
      in if frag \<noteq> [] then url3 @ ''#'' @ frag else url3)"

definition urlunparse :: "parse_result \<Rightarrow> string" where
  "urlunparse r =
     urlunsplit (scheme r) (netloc r)
       (if params r \<noteq> [] then path r @ '';'' @ params r else path r)
       (query r) (fragment r)"

text \<open>\<open>ParseResult.geturl\<close> is \<open>urlunparse\<close> of the tuple.\<close>

definition geturl :: "parse_result \<Rightarrow> string" where
  "geturl r = urlunparse r"

section \<open>app/utils/validation.py\<close>

definition normalize_url :: "string \<Rightarrow> string" where
  "normalize_url raw_url =
     (let url = strip raw_url
      in if url = [] then []
         else if \<not> sublist ''://'' url then ''https://'' @ url
         else url)"

text \<open>\<open>is_valid_http_url\<close> catches the \<open>ValueError\<close> of \<open>urlparse\<close> and answers False.\<close>

definition is_valid_http_url :: "(string \<Rightarrow> bool) \<Rightarrow> string \<Rightarrow> bool" where
  "is_valid_http_url bh url =
     (case urlparse bh url of
        Inl e \<Rightarrow> False
      | Inr parsed \<Rightarrow> scheme parsed \<in> {''http'', ''https''} \<and> netloc parsed \<noteq> [])"

section \<open>app/utils/pinterest_urls.py\<close>

definition PIN_SHORT_HOSTS :: "string set" where
  "PIN_SHORT_HOSTS = {''pin.it''}"

definition RESERVED_PROFILE_SEGMENTS :: "string set" where
  "RESERVED_PROFILE_SEGMENTS =
     {[], ''pin'', ''pins'', ''search'', ''ideas'', ''explore'', ''discover'',
      ''categories'', ''business'', ''about'', ''help'', ''privacy'', ''settings'',
      ''login'', ''signup'', ''create'', ''shop'', ''_''}"

text \<open>
  \<open>PINTEREST_HOST_RE = (?:^|\.)pinterest\.[a-z.]+$\<close> with \<open>IGNORECASE\<close>, used with
  \<open>search\<close>. \<open>pinterest_here s\<close> says that \<open>pinterest\.[a-z.]+$\<close> matches at the start of
  \<open>s\<close>; a match starts at the beginning of the subject or just after a dot.
\<close>

definition host_tail_char :: "char \<Rightarrow> bool" where
  "host_tail_char c = (ascii_alpha c \<or> c = CHR ''.'')"

definition pinterest_here :: "string \<Rightarrow> bool" where
  "pinterest_here s =
     (lower (take 10 s) = ''pinterest.''
      \<and> takeWhile host_tail_char (drop 10 s) \<noteq> []
      \<and> re_end (dropWhile host_tail_char (drop 10 s)))"

fun pinterest_after_dot :: "string \<Rightarrow> bool" where
  "pinterest_after_dot [] = False"
| "pinterest_after_dot (c # cs) = ((c = CHR ''.'' \<and> pinterest_here cs) \<or> pinterest_after_dot cs)"

definition PINTEREST_HOST_RE_search :: "string \<Rightarrow> bool" where
  "PINTEREST_HOST_RE_search s = (pinterest_here s \<or> pinterest_after_dot s)"

text \<open>\<open>PIN_PATH_RE = ^/pin/\d+/?$\<close> with \<open>IGNORECASE\<close>, used with \<open>match\<close>.\<close>

definition PIN_PATH_RE_match :: "string \<Rightarrow> bool" where
  "PIN_PATH_RE_match s =
     (let rest = dropWhile re_digit (drop 5 s)
      in lower (take 5 s) = ''/pin/''
         \<and> takeWhile re_digit (drop 5 s) \<noteq> []
         \<and> (re_end rest \<or> (take 1 rest = ''/'' \<and> re_end (drop 1 rest))))"

definition is_pinterest_host :: "string \<Rightarrow> bool" where
  "is_pinterest_host host =
     (let host_value = strip (lower host)
      in if host_value = [] then False
         else if host_value \<in> PIN_SHORT_HOSTS then True
         else PINTEREST_HOST_RE_search host_value)"

definition is_pin_url :: "(string \<Rightarrow> bool) \<Rightarrow> string \<Rightarrow> exn + bool" where
  "is_pin_url bh url =
     (case urlparse bh url of
        Inl e \<Rightarrow> Inl e
      | Inr parsed \<Rightarrow>
          (let host = lower (netloc parsed)
           in if host \<in> PIN_SHORT_HOSTS then Inr True
              else if \<not> is_pinterest_host host then Inr False
              else Inr (PIN_PATH_RE_match (path parsed))))"

definition extract_profile_username :: "(string \<Rightarrow> bool) \<Rightarrow> string \<Rightarrow> exn + string option" where
  "extract_profile_username bh url =
     (case urlparse bh url of
        Inl e \<Rightarrow> Inl e
      | Inr parsed \<Rightarrow>
          (let host = lower (netloc parsed)
           in if \<not> is_pinterest_host host then Inr None
              else if host \<in> PIN_SHORT_HOSTS then Inr None
              else
                (case path_segments (path parsed) of
                   [] \<Rightarrow> Inr None
                 | segment # _ \<Rightarrow>
                     (let username = lower (strip segment)
                      in if username \<in> RESERVED_PROFILE_SEGMENTS then Inr None
                         else if prefix ''_'' username then Inr None
                         else Inr (Some username)))))"

definition is_profile_url :: "(string \<Rightarrow> bool) \<Rightarrow> string \<Rightarrow> exn + bool" where
  "is_profile_url bh url =
     (case is_pin_url bh url of
        Inl e \<Rightarrow> Inl e
      | Inr pin \<Rightarrow>
          if pin then Inr False
          else (case extract_profile_username bh url of
                  Inl e \<Rightarrow> Inl e
                | Inr r \<Rightarrow> Inr (r \<noteq> None)))"

definition canonical_profile_url :: "string \<Rightarrow> string" where
  "canonical_profile_url username = ''https://www.pinterest.com/'' @ username @ ''/''"

definition canonical_pin_url :: "string \<Rightarrow> string" where
  "canonical_pin_url pin_id = ''https://www.pinterest.com/pin/'' @ pin_id @ ''/''"

section \<open>Helpers for exceptions and numbers\<close>

text \<open>Sequencing of two computations that may raise: the first exception wins.\<close>

fun bind_ok :: "exn + 'a \<Rightarrow> ('a \<Rightarrow> exn + 'b) \<Rightarrow> exn + 'b" where
  "bind_ok (Inl e) f = Inl e"
| "bind_ok (Inr v) f = f v"

text \<open>
  \<open>int(s)\<close> on a string that passed \<open>isdigit\<close>: the decimal value when every character
  is one of \<open>0\<close> to \<open>9\<close> and there are at most 4300 of them (the default limit of
  the interpreter on the digits of a decimal text, leading zeros included), and
  \<open>ValueError\<close> otherwise (a superscript digit passes \<open>isdigit\<close> and is refused by
  \<open>int\<close>).
\<close>

definition digits_value :: "string \<Rightarrow> int" where
  "digits_value s = foldl (\<lambda>acc c. 10 * acc + int (code c - 48)) 0 s"

definition py_int :: "string \<Rightarrow> exn + int" where
  "py_int s =
     (if s \<noteq> [] \<and> list_all re_digit s \<and> length s \<le> 4300 then Inr (digits_value s)
      else Inl ValueError)"

section \<open>app/utils/media.py\<close>

datatype media_type = ImageMedia | VideoMedia

definition IMAGE_EXTENSIONS :: "string set" where
  "IMAGE_EXTENSIONS =
     {''.jpg'', ''.jpeg'', ''.png'', ''.webp'', ''.gif'', ''.bmp'', ''.tif'', ''.tiff'', ''.avif''}"

definition VIDEO_EXTENSIONS :: "string set" where
  "VIDEO_EXTENSIONS = {''.mp4'', ''.mov'', ''.webm'', ''.m4v'', ''.avi'', ''.mkv'', ''.3gp''}"

definition NON_MEDIA_EXTENSIONS :: "string set" where
  "NON_MEDIA_EXTENSIONS = {''.woff'', ''.woff2'', ''.ttf'', ''.otf'', ''.eot'', ''.css'', ''.js''}"

text \<open>\<open>SIZE_SEGMENT_RE = ^\d+x\d*$\<close>, used with \<open>match\<close>.\<close>

definition SIZE_SEGMENT_RE_match :: "string \<Rightarrow> bool" where
  "SIZE_SEGMENT_RE_match s =
     (let rest = dropWhile re_digit s
      in takeWhile re_digit s \<noteq> []
         \<and> take 1 rest = ''x''
         \<and> re_end (dropWhile re_digit (drop 1 rest)))"

text \<open>
  \<open>Path(p).suffix\<close> of \<open>pathlib\<close> (POSIX flavour, CPython 3.11): the name is the last
  component that is neither empty nor a single dot, and the suffix starts at the last
  dot of the name unless that dot is its first or its last character.
\<close>

definition path_name :: "string \<Rightarrow> string" where
  "path_name p =
     (case rev (filter (\<lambda>x. x \<noteq> [] \<and> x \<noteq> ''.'') (split_on CHR ''/'' p)) of
        [] \<Rightarrow> []
      | x # _ \<Rightarrow> x)"

definition path_suffix :: "string \<Rightarrow> string" where
  "path_suffix p =
     (let name = path_name p;
          ext = rev (takeWhile (\<lambda>c. c \<noteq> CHR ''.'') (rev name))
      in if CHR ''.'' \<in> set name \<and> ext \<noteq> [] \<and> Suc (length ext) < length name
         then CHR ''.'' # ext else [])"

definition infer_media_type_from_url :: "(string \<Rightarrow> bool) \<Rightarrow> string \<Rightarrow> exn + media_type option" where
  "infer_media_type_from_url bh url =
     bind_ok (urlparse bh url) (\<lambda>parsed.
       let lpath = lower (path parsed);
           suffix0 = lower (path_suffix lpath)
       in if suffix0 \<in> NON_MEDIA_EXTENSIONS then Inr None
          else if suffix0 \<in> IMAGE_EXTENSIONS then Inr (Some ImageMedia)
          else if suffix0 \<in> VIDEO_EXTENSIONS \<or> sublist ''/videos/'' lpath then Inr (Some VideoMedia)
          else if sublist ''pinimg.com'' (lower (netloc parsed)) then
            (case path_segments lpath of
               [] \<Rightarrow> Inr None
             | first_segment # _ \<Rightarrow>
                 if first_segment = ''originals'' \<or> SIZE_SEGMENT_RE_match first_segment
                 then Inr (Some ImageMedia)
                 else if suffix ''x_rs'' first_segment \<and> suffix0 \<in> IMAGE_EXTENSIONS
                 then Inr (Some ImageMedia)
                 else Inr None)
          else Inr None)"

section \<open>app/services/pinterest_resolver.py: candidates, variants and scores\<close>

record MediaCandidate =
  cand_url :: string
  cand_media_type :: media_type
  cand_quality_score :: int
  cand_source :: string

definition PINTEREST_IMAGE_HOST :: string where
  "PINTEREST_IMAGE_HOST = ''i.pinimg.com''"

definition is_pinimg_host :: "string \<Rightarrow> bool" where
  "is_pinimg_host host =
     (let host_value = lower host
      in host_value = PINTEREST_IMAGE_HOST \<or> suffix ''.pinimg.com'' host_value)"

definition is_placeholder_image :: "(string \<Rightarrow> bool) \<Rightarrow> string \<Rightarrow> exn + bool" where
  "is_placeholder_image bh url =
     bind_ok (urlparse bh url) (\<lambda>parsed.
       let lpath = lower (path parsed)
       in if sublist ''facebook_share_image'' lpath then Inr True
          else if sublist ''/images/'' lpath \<and> \<not> sublist ''/originals/'' lpath then Inr True
          else Inr False)"

text \<open>\<open>_dedupe_url_list\<close>: the loop over \<open>values\<close> with its two accumulators.\<close>

fun dedupe_url_loop :: "string list \<Rightarrow> string list \<Rightarrow> string set \<Rightarrow> string list" where
  "dedupe_url_loop [] deduped seen = deduped"
| "dedupe_url_loop (v # values) deduped seen =
     (if v \<notin> seen then dedupe_url_loop values (deduped @ [v]) (insert v seen)
      else dedupe_url_loop values deduped seen)"

definition dedupe_url_list :: "string list \<Rightarrow> string list" where
  "dedupe_url_list values = dedupe_url_loop values [] {}"

definition pinimg_variants :: "(string \<Rightarrow> bool) \<Rightarrow> string \<Rightarrow> exn + string list" where
  "pinimg_variants bh url =
     bind_ok (urlparse bh url) (\<lambda>parsed.
       if \<not> is_pinimg_host (netloc parsed) then Inr [url]
       else
         (case path_segments (path parsed) of
            [] \<Rightarrow> Inr [url]
          | first_segment # rest \<Rightarrow>
              if first_segment \<noteq> ''originals'' \<and> SIZE_SEGMENT_RE_match first_segment
              then
                (let rebuilt_path = ''/'' @ join_with CHR ''/'' (''originals'' # rest)
                 in Inr (dedupe_url_list [geturl (parsed\<lparr> path := rebuilt_path \<rparr>), url]))
              else Inr (dedupe_url_list [url])))"

text \<open>
  The width and height that \<open>_score_image\<close> reads from a first path segment that
  matches \<open>SIZE_SEGMENT_RE\<close>: \<open>partition("x")\<close>, then \<open>int\<close> of each side that passes
  \<open>isdigit\<close>, the height defaulting to the width.
\<close>

definition size_bonus :: "string list \<Rightarrow> exn + int" where
  "size_bonus segments =
     (case segments of
        [] \<Rightarrow> Inr 0
      | segment # _ \<Rightarrow>
          if SIZE_SEGMENT_RE_match segment then
            (let width_text = before CHR ''x'' segment;
                 height_text = after CHR ''x'' segment
             in bind_ok (if isdigit width_text then py_int width_text else Inr 0) (\<lambda>width.
                bind_ok (if isdigit height_text then py_int height_text else Inr width) (\<lambda>height.
                  Inr (width + height))))
          else Inr 0)"

definition score_image :: "(string \<Rightarrow> bool) \<Rightarrow> string \<Rightarrow> string \<Rightarrow> exn + int" where
  "score_image bh url size_hint =
     bind_ok (urlparse bh url) (\<lambda>parsed.
       let lpath = lower (path parsed);
           score1 = (if sublist ''/originals/'' lpath \<or> lower size_hint = ''orig''
                     then 1000 + 9000 else 1000)
       in bind_ok (size_bonus (path_segments lpath)) (\<lambda>bonus.
            let score2 = score1 + bonus;
                score3 = (if sublist ''75x75_rs'' lpath \<or> sublist ''facebook_share_image'' lpath
                          then score2 - 6000 else score2);
                score4 = (if sublist ''/images/'' lpath \<and> \<not> sublist ''/originals/'' lpath
                          then score3 - 3000 else score3)
            in bind_ok (urlparse bh url) (\<lambda>parsed2.
                 if is_pinimg_host (netloc parsed2) then Inr (score4 + 300) else Inr score4)))"

text \<open>
  \<open>VIDEO_RESOLUTION_RE = /(\d{3,4})p(?:/|$)\<close>, used with \<open>search\<close>: the first slash that
  is followed by exactly three or four digits, a \<open>p\<close>, and then a slash or the end.
  The result is group 1.
\<close>

definition video_resolution_here :: "string \<Rightarrow> string option" where
  "video_resolution_here s =
     (let digits = takeWhile re_digit s;
          rest = dropWhile re_digit s
      in if (length digits = 3 \<or> length digits = 4) \<and> take 1 rest = ''p''
            \<and> (take 1 (drop 1 rest) = ''/'' \<or> re_end (drop 1 rest))
         then Some digits else None)"

fun VIDEO_RESOLUTION_RE_search :: "string \<Rightarrow> string option" where
  "VIDEO_RESOLUTION_RE_search [] = None"
| "VIDEO_RESOLUTION_RE_search (c # cs) =
     (if c = CHR ''/'' then
        (case video_resolution_here cs of
           Some digits \<Rightarrow> Some digits
         | None \<Rightarrow> VIDEO_RESOLUTION_RE_search cs)
      else VIDEO_RESOLUTION_RE_search cs)"

definition score_video :: "(string \<Rightarrow> bool) \<Rightarrow> string \<Rightarrow> string \<Rightarrow> exn + int" where
  "score_video bh url size_hint =
     bind_ok (urlparse bh url) (\<lambda>parsed.
       let lpath = lower (path parsed)
       in bind_ok (case VIDEO_RESOLUTION_RE_search lpath of
                     None \<Rightarrow> Inr 20000
                   | Some digits \<Rightarrow> bind_ok (py_int digits) (\<lambda>n. Inr (20000 + n))) (\<lambda>score1.
            let score2 = (if suffix ''.mp4'' lpath then score1 + 500 else score1);
                score3 = (if suffix ''.m3u8'' lpath then score2 - 300 else score2);
                score4 = (if sublist ''hls'' lpath then score3 - 150 else score3)
            in if size_hint \<noteq> [] \<and> suffix ''p'' (lower size_hint) then
                 (let digits = filter re_digit size_hint
                  in if isdigit digits
                     then bind_ok (py_int digits) (\<lambda>n. Inr (score4 + n))
                     else Inr score4)
               else Inr score4))"

text \<open>\<open>_build_candidates\<close>: one candidate per variant of an image, one for a video.\<close>

fun score_variants :: "(string \<Rightarrow> bool) \<Rightarrow> string list \<Rightarrow> string \<Rightarrow> string \<Rightarrow> exn + MediaCandidate list" where
  "score_variants bh [] src size_hint = Inr []"
| "score_variants bh (variant # variants) src size_hint =
     bind_ok (score_image bh variant size_hint) (\<lambda>s.
     bind_ok (score_variants bh variants src size_hint) (\<lambda>rest.
       Inr (\<lparr> cand_url = variant, cand_media_type = ImageMedia,
              cand_quality_score = s, cand_source = src \<rparr> # rest)))"

definition build_candidates :: "(string \<Rightarrow> bool) \<Rightarrow> string \<Rightarrow> media_type \<Rightarrow> string \<Rightarrow> string \<Rightarrow> exn + MediaCandidate list" where
  "build_candidates bh url mtype src size_hint =
     (if mtype = ImageMedia then
        bind_ok (pinimg_variants bh url) (\<lambda>variants. score_variants bh variants src size_hint)
      else
        bind_ok (score_video bh url size_hint) (\<lambda>s.
          Inr [\<lparr> cand_url = url, cand_media_type = VideoMedia,
                 cand_quality_score = s, cand_source = src \<rparr>]))"

text \<open>
  \<open>_sort_and_dedupe\<close>. The dictionary \<open>by_key\<close> keeps its keys in the order of their first
  insertion, and an assignment to a key that is present replaces the value in place;
  it is the list of its values here. \<open>list.sort\<close> with \<open>reverse=True\<close> is stable.
\<close>

definition cand_key :: "MediaCandidate \<Rightarrow> media_type \<times> string" where
  "cand_key item = (cand_media_type item, cand_url item)"

fun by_key_store :: "MediaCandidate \<Rightarrow> MediaCandidate list \<Rightarrow> MediaCandidate list" where
  "by_key_store item [] = [item]"
| "by_key_store item (existing # others) =
     (if cand_key existing = cand_key item
      then (if cand_quality_score item > cand_quality_score existing
            then item # others else existing # others)
      else existing # by_key_store item others)"

definition sort_and_dedupe :: "MediaCandidate list \<Rightarrow> MediaCandidate list" where
  "sort_and_dedupe candidates =
     (let by_key = foldl (\<lambda>acc item. by_key_store item acc) [] candidates
      in sort_key (\<lambda>item. - cand_quality_score item) by_key)"

section \<open>urljoin\<close>

text \<open>
  \<open>segments[1:-1] = filter(None, segments[1:-1])\<close>: the empty strings between the first
  and the last element are dropped.
\<close>

definition filter_middle :: "string list \<Rightarrow> string list" where
  "filter_middle segments =
     (case segments of
        [] \<Rightarrow> []
      | [a] \<Rightarrow> [a]
      | a # rest \<Rightarrow> a # filter (\<lambda>s. s \<noteq> []) (butlast rest) @ [last rest])"

text \<open>The loop of \<open>urljoin\<close> that resolves the dot segments; \<open>pop\<close> on an empty list is ignored.\<close>

fun resolve_dots :: "string list \<Rightarrow> string list \<Rightarrow> string list" where
  "resolve_dots [] resolved_path = resolved_path"
| "resolve_dots (seg # segments) resolved_path =
     (if seg = ''..'' then resolve_dots segments (butlast resolved_path)
      else if seg = ''.'' then resolve_dots segments resolved_path
      else resolve_dots segments (resolved_path @ [seg]))"

definition urljoin :: "(string \<Rightarrow> bool) \<Rightarrow> string \<Rightarrow> string \<Rightarrow> exn + string" where
  "urljoin bh base url =
     (if base = [] then Inr url
      else if url = [] then Inr base
      else
        bind_ok (urlparse_with bh base []) (\<lambda>b.
        bind_ok (urlparse_with bh url (scheme b)) (\<lambda>u.
          if scheme u \<noteq> scheme b \<or> scheme u \<notin> set uses_relative then Inr url
          else if scheme u \<in> set uses_netloc \<and> netloc u \<noteq> [] then Inr (urlunparse u)
          else
            (let netloc1 = (if scheme u \<in> set uses_netloc then netloc b else netloc u)
             in if path u = [] \<and> params u = [] then
                  Inr (urlunparse (u\<lparr> netloc := netloc1, path := path b, params := params b,
                         query := (if query u = [] then query b else query u) \<rparr>))
                else
                  (let base_parts0 = split_on CHR ''/'' (path b);
                       base_parts = (if last base_parts0 \<noteq> [] then butlast base_parts0
                                     else base_parts0);
                       segments = (if take 1 (path u) = ''/'' then split_on CHR ''/'' (path u)
                                   else filter_middle (base_parts @ split_on CHR ''/'' (path u)));
                       resolved0 = resolve_dots segments [];
                       resolved_path = (if last segments \<in> {''.'', ''..''} then resolved0 @ [[]]
                                        else resolved0);
                       joined = join_with CHR ''/'' resolved_path
                   in Inr (urlunparse (u\<lparr> netloc := netloc1,
                            path := (if joined = [] then ''/'' else joined) \<rparr>)))))))"

section \<open>What the model takes from the Python runtime\<close>

text \<open>
  A decoded JSON document. A decoded object has distinct keys and keeps them in the
  order of the text, so it is an association list; \<open>dict.get\<close> is \<open>map_of\<close>, and a
  missing key reads as \<open>None\<close> like a \<open>null\<close>. A float only matters through its truth
  value; an infinity or a NaN is true like any float other than zero.
\<close>

datatype json =
    JNull
  | JBool bool
  | JInt int
  | JFloat real
  | JStr string
  | JList "json list"
  | JDict "(string \<times> json) list"

definition dict_get :: "(string \<times> json) list \<Rightarrow> string \<Rightarrow> json" where
  "dict_get items key = (case map_of items key of None \<Rightarrow> JNull | Some v \<Rightarrow> v)"

text \<open>The truth value of a decoded JSON value.\<close>

fun truthy :: "json \<Rightarrow> bool" where
  "truthy JNull = False"
| "truthy (JBool b) = b"
| "truthy (JInt n) = (n \<noteq> 0)"
| "truthy (JFloat r) = (r \<noteq> 0)"
| "truthy (JStr s) = (s \<noteq> [])"
| "truthy (JList vs) = (vs \<noteq> [])"
| "truthy (JDict items) = (items \<noteq> [])"

text \<open>
  The parts of the runtime that are not modelled are parameters, collected in one
  record: the library's check of a bracketed host; the substitution of character
  references that \<open>html.unescape\<close> performs on a text with an ampersand; \<open>json.loads\<close>
  (None when it raises \<open>ValueError\<close>); and the scans of a page body with the three
  larger patterns of the resolver, each giving the matched texts in the order in which
  \<open>finditer\<close> yields them (group 1 for the meta and JSON-LD patterns, the whole match
  for the hosted-media pattern).
\<close>

record pyenv =
  bracketed_host_ok :: "string \<Rightarrow> bool"
  charref_sub :: "string \<Rightarrow> string"
  json_loads :: "string \<Rightarrow> json option"
  META_IMAGE_PATTERNS_scan :: "string \<Rightarrow> string list"
  LD_JSON_PATTERN_scan :: "string \<Rightarrow> string list"
  HOSTED_MEDIA_PATTERN_scan :: "string \<Rightarrow> string list"

definition html_unescape :: "pyenv \<Rightarrow> string \<Rightarrow> string" where
  "html_unescape E s = (if CHR ''&'' \<notin> set s then s else charref_sub E s)"

text \<open>
  The answer to one HTTP request: \<open>Failed\<close> when \<open>get\<close> or \<open>post\<close> itself raises a
  \<open>RequestException\<close>; otherwise the final URL, the status code, the body, and the
  decoded body (None when \<open>response.json()\<close> raises). \<open>raise_for_status\<close> raises a
  \<open>RequestException\<close> on a status from 400 to 599.
\<close>

datatype http_reply =
    Failed
  | Reply (reply_url: string) (status_code: nat) (reply_text: string) (reply_json: "json option")

definition http_error :: "nat \<Rightarrow> bool" where
  "http_error st = (400 \<le> st \<and> st < 600)"

section \<open>app/services/pinterest_resolver.py: normalisation and extraction\<close>

definition backslash :: char where
  "backslash = CHR 0x5C"

definition dquote :: char where
  "dquote = CHR 0x22"

definition squote :: char where
  "squote = CHR 0x27"

text \<open>
  \<open>NORMALIZED_URL_RE = ^https?://[^\s"'<>)\]}]+\<close> with \<open>IGNORECASE\<close>, used with
  \<open>match\<close>; the result is the matched text.
\<close>

definition url_body_char :: "char \<Rightarrow> bool" where
  "url_body_char c =
     (\<not> is_space c
      \<and> c \<notin> {dquote, squote, CHR ''<'', CHR ''>'', CHR '')'', CHR '']'', CHR ''}''})"

definition NORMALIZED_URL_RE_match :: "string \<Rightarrow> string option" where
  "NORMALIZED_URL_RE_match s =
     (let n = (if lower (take 5 s) = ''https'' \<and> take 3 (drop 5 s) = ''://'' then 8
               else if lower (take 4 s) = ''http'' \<and> take 3 (drop 4 s) = ''://'' then 7
               else 0);
          body = takeWhile url_body_char (drop n s)
      in if n = 0 \<or> body = [] then None else Some (take n s @ body))"

definition strip_chars :: "char \<Rightarrow> bool" where
  "strip_chars c = (c \<in> {dquote, squote, CHR '' '', CHR '')'', CHR '',''})"

definition rstrip_chars :: "char \<Rightarrow> bool" where
  "rstrip_chars c = (c \<in> {CHR ''.'', CHR '','', CHR '';''})"

definition normalize_candidate :: "pyenv \<Rightarrow> string \<Rightarrow> string \<Rightarrow> exn + string option" where
  "normalize_candidate E val base_url =
     (let candidate0 = html_unescape E (strip val)
      in if candidate0 = [] then Inr None
         else
           (let candidate1 =
                  replace ''&amp;'' ''&''
                    (replace (backslash # ''u0026'') ''&''
                      (replace (backslash # ''u002F'') ''/''
                        (replace [backslash, CHR ''/''] ''/'' candidate0)));
                candidate2 = strip_of strip_chars candidate1;
                candidate3 = (if prefix ''//'' candidate2 then ''https:'' @ candidate2
                              else candidate2)
            in bind_ok (urljoin (bracketed_host_ok E) base_url candidate3) (\<lambda>joined.
                 case NORMALIZED_URL_RE_match (rstrip_of rstrip_chars joined) of
                   None \<Rightarrow> Inr None
                 | Some candidate \<Rightarrow>
                     if \<not> is_valid_http_url (bracketed_host_ok E) candidate then Inr None
                     else Inr (Some candidate))))"

text \<open>
  The body of \<open>walk\<close> for a string value, shared by every caller of
  \<open>_extract_candidates_from_object\<close>.
\<close>

definition walk_string :: "pyenv \<Rightarrow> string \<Rightarrow> string \<Rightarrow> media_type option \<Rightarrow> string \<Rightarrow> string \<Rightarrow> exn + MediaCandidate list" where
  "walk_string E base_url src media_type_hint val key_hint =
     (if \<not> sublist ''http'' val \<and> \<not> sublist [backslash, CHR ''/''] val then Inr []
      else
        bind_ok (normalize_candidate E val base_url) (\<lambda>normalized.
          case normalized of
            None \<Rightarrow> Inr []
          | Some n \<Rightarrow>
              bind_ok (infer_media_type_from_url (bracketed_host_ok E) n) (\<lambda>inferred.
                case inferred of
                  None \<Rightarrow> Inr []
                | Some mtype \<Rightarrow>
                    if media_type_hint \<noteq> None \<and> Some mtype \<noteq> media_type_hint then Inr []
                    else
                      bind_ok (if mtype = ImageMedia
                               then is_placeholder_image (bracketed_host_ok E) n
                               else Inr False) (\<lambda>placeholder.
                        if placeholder then Inr []
                        else build_candidates (bracketed_host_ok E) n mtype src key_hint))))"

text \<open>
  \<open>walk\<close> appends to the list \<open>candidates\<close> of the enclosing call as it goes; the model
  returns what it appends, in the same order.
\<close>

fun walk :: "pyenv \<Rightarrow> string \<Rightarrow> string \<Rightarrow> media_type option \<Rightarrow> json \<Rightarrow> string \<Rightarrow> exn + MediaCandidate list"
  and walk_items :: "pyenv \<Rightarrow> string \<Rightarrow> string \<Rightarrow> media_type option \<Rightarrow> (string \<times> json) list \<Rightarrow> exn + MediaCandidate list"
  and walk_list :: "pyenv \<Rightarrow> string \<Rightarrow> string \<Rightarrow> media_type option \<Rightarrow> json list \<Rightarrow> string \<Rightarrow> exn + MediaCandidate list"
where
  "walk E base_url src hint (JDict items) key_hint = walk_items E base_url src hint items"
| "walk E base_url src hint (JList vs) key_hint = walk_list E base_url src hint vs key_hint"
| "walk E base_url src hint (JStr s) key_hint = walk_string E base_url src hint s key_hint"
| "walk E base_url src hint JNull key_hint = Inr []"
| "walk E base_url src hint (JBool b) key_hint = Inr []"
| "walk E base_url src hint (JInt n) key_hint = Inr []"
| "walk E base_url src hint (JFloat r) key_hint = Inr []"
| "walk_items E base_url src hint [] = Inr []"
| "walk_items E base_url src hint ((key, nested) # items) =
     bind_ok (walk E base_url src hint nested key) (\<lambda>found.
     bind_ok (walk_items E base_url src hint items) (\<lambda>rest. Inr (found @ rest)))"
| "walk_list E base_url src hint [] key_hint = Inr []"
| "walk_list E base_url src hint (nested # vs) key_hint =
     bind_ok (walk E base_url src hint nested key_hint) (\<lambda>found.
     bind_ok (walk_list E base_url src hint vs key_hint) (\<lambda>rest. Inr (found @ rest)))"

definition extract_candidates_from_object :: "pyenv \<Rightarrow> json \<Rightarrow> string \<Rightarrow> string \<Rightarrow> media_type option \<Rightarrow> exn + MediaCandidate list" where
  "extract_candidates_from_object E payload base_url src media_type_hint =
     bind_ok (walk E base_url src media_type_hint payload [])
       (\<lambda>candidates. Inr (sort_and_dedupe candidates))"

text \<open>The loop of \<open>_fetch_pin_api_candidates\<close> over \<open>images.items()\<close>.\<close>

fun api_images :: "pyenv \<Rightarrow> string \<Rightarrow> (string \<times> json) list \<Rightarrow> exn + MediaCandidate list" where
  "api_images E base_url [] = Inr []"
| "api_images E base_url ((size_key, details) # items) =
     bind_ok
       (case details of
          JDict d \<Rightarrow>
            (case dict_get d ''url'' of
               JStr raw_url \<Rightarrow>
                 bind_ok (normalize_candidate E raw_url base_url) (\<lambda>normalized.
                   case normalized of
                     None \<Rightarrow> Inr []
                   | Some n \<Rightarrow>
                       bind_ok (is_placeholder_image (bracketed_host_ok E) n) (\<lambda>placeholder.
                         if placeholder then Inr []
                         else build_candidates (bracketed_host_ok E) n ImageMedia
                                ''api-images'' size_key))
             | _ \<Rightarrow> Inr [])
        | _ \<Rightarrow> Inr [])
       (\<lambda>found. bind_ok (api_images E base_url items) (\<lambda>rest. Inr (found @ rest)))"

text \<open>
  \<open>_fetch_pin_api_candidates\<close>, from the reply of the item-info endpoint. A payload that
  is not an object has no \<open>get\<close>: the call raises \<open>AttributeError\<close>.
\<close>

definition pin_data_candidates :: "pyenv \<Rightarrow> string \<Rightarrow> (string \<times> json) list \<Rightarrow> exn + MediaCandidate list" where
  "pin_data_candidates E base_url pin_data =
     bind_ok (case dict_get pin_data ''images'' of
                JDict images \<Rightarrow> api_images E base_url images
              | _ \<Rightarrow> Inr []) (\<lambda>c1.
     bind_ok (if dict_get pin_data ''videos'' \<noteq> JNull
              then extract_candidates_from_object E (dict_get pin_data ''videos'') base_url
                     ''api-videos'' (Some VideoMedia)
              else Inr []) (\<lambda>c2.
     bind_ok (if dict_get pin_data ''story_pin_data'' \<noteq> JNull
              then extract_candidates_from_object E (dict_get pin_data ''story_pin_data'') base_url
                     ''api-story'' None
              else Inr []) (\<lambda>c3.
     bind_ok (if truthy (dict_get pin_data ''is_video'')
              then extract_candidates_from_object E (JDict pin_data) base_url
                     ''api-fallback'' (Some VideoMedia)
              else Inr []) (\<lambda>c4.
       Inr (sort_and_dedupe (c1 @ c2 @ c3 @ c4))))))"

definition fetch_pin_api_candidates :: "pyenv \<Rightarrow> string \<Rightarrow> http_reply \<Rightarrow> exn + MediaCandidate list" where
  "fetch_pin_api_candidates E pin_id reply =
     (case reply of
        Failed \<Rightarrow> Inr []
      | Reply u st txt js \<Rightarrow>
          if http_error st then Inr []
          else
            (case js of
               None \<Rightarrow> Inr []
             | Some payload \<Rightarrow>
                 (case payload of
                    JDict obj \<Rightarrow>
                      (case dict_get obj ''data'' of
                         JList (JDict pin_data # _) \<Rightarrow>
                           pin_data_candidates E
                             (''https://www.pinterest.com/pin/'' @ pin_id @ ''/'') pin_data
                       | _ \<Rightarrow> Inr [])
                  | _ \<Rightarrow> Inl AttributeError)))"

section \<open>app/services/pinterest_resolver.py: the strategy cascade\<close>

text \<open>
  \<open>PIN_ID_PATH_RE = /pin/(\d+)/?\<close> and \<open>OEMBED_PIN_ID_RE = [?&]id=(\d+)\<close>, used with
  \<open>search\<close>; the result is group 1 of the leftmost match.
\<close>

fun extract_pin_id :: "string \<Rightarrow> string option" where
  "extract_pin_id [] = None"
| "extract_pin_id (c # cs) =
     (if prefix ''/pin/'' (c # cs) \<and> takeWhile re_digit (drop 4 cs) \<noteq> []
      then Some (takeWhile re_digit (drop 4 cs))
      else extract_pin_id cs)"

fun OEMBED_PIN_ID_RE_search :: "string \<Rightarrow> string option" where
  "OEMBED_PIN_ID_RE_search [] = None"
| "OEMBED_PIN_ID_RE_search (c # cs) =
     (if (c = CHR ''?'' \<or> c = CHR ''&'') \<and> prefix ''id='' cs
         \<and> takeWhile re_digit (drop 3 cs) \<noteq> []
      then Some (takeWhile re_digit (drop 3 cs))
      else OEMBED_PIN_ID_RE_search cs)"

definition resolve_pin_id_via_oembed :: "http_reply \<Rightarrow> exn + string option" where
  "resolve_pin_id_via_oembed reply =
     (case reply of
        Failed \<Rightarrow> Inr None
      | Reply u st txt js \<Rightarrow>
          if http_error st then Inr None
          else
            (case js of
               None \<Rightarrow> Inr None
             | Some payload \<Rightarrow>
                 (case payload of
                    JDict obj \<Rightarrow>
                      (case dict_get obj ''html'' of
                         JStr html_embed \<Rightarrow> Inr (OEMBED_PIN_ID_RE_search html_embed)
                       | _ \<Rightarrow> Inr None)
                  | _ \<Rightarrow> Inl AttributeError)))"

text \<open>The loop of \<open>_fetch_oembed_media_candidates\<close> over the two keys.\<close>

fun oembed_keys :: "pyenv \<Rightarrow> string \<Rightarrow> (string \<times> json) list \<Rightarrow> string list \<Rightarrow> exn + MediaCandidate list" where
  "oembed_keys E page_url obj [] = Inr []"
| "oembed_keys E page_url obj (key # keys) =
     bind_ok
       (case dict_get obj key of
          JStr v \<Rightarrow>
            bind_ok (normalize_candidate E v page_url) (\<lambda>normalized.
              case normalized of
                None \<Rightarrow> Inr []
              | Some n \<Rightarrow>
                  bind_ok (infer_media_type_from_url (bracketed_host_ok E) n) (\<lambda>inferred.
                  bind_ok (if inferred = Some ImageMedia
                           then is_placeholder_image (bracketed_host_ok E) n
                           else Inr False) (\<lambda>placeholder.
                    if placeholder then Inr []
                    else (case inferred of
                            None \<Rightarrow> Inr []
                          | Some mtype \<Rightarrow>
                              build_candidates (bracketed_host_ok E) n mtype
                                (''oembed-'' @ key) key))))
        | _ \<Rightarrow> Inr [])
       (\<lambda>found. bind_ok (oembed_keys E page_url obj keys) (\<lambda>rest. Inr (found @ rest)))"

definition fetch_oembed_media_candidates :: "pyenv \<Rightarrow> string \<Rightarrow> http_reply \<Rightarrow> exn + MediaCandidate list" where
  "fetch_oembed_media_candidates E page_url reply =
     (case reply of
        Failed \<Rightarrow> Inr []
      | Reply u st txt js \<Rightarrow>
          if http_error st then Inr []
          else
            (case js of
               None \<Rightarrow> Inr []
             | Some payload \<Rightarrow>
                 (case payload of
                    JDict obj \<Rightarrow>
                      bind_ok (oembed_keys E page_url obj [''thumbnail_url'', ''url''])
                        (\<lambda>candidates. Inr (sort_and_dedupe candidates))
                  | _ \<Rightarrow> Inl AttributeError)))"

text \<open>The loop of \<open>_extract_ldjson_candidates\<close> over the matched script bodies.\<close>

fun ldjson_blocks :: "pyenv \<Rightarrow> string \<Rightarrow> string list \<Rightarrow> exn + MediaCandidate list" where
  "ldjson_blocks E base_url [] = Inr []"
| "ldjson_blocks E base_url (block # blocks) =
     bind_ok
       (let raw_json = strip block
        in if raw_json = [] then Inr []
           else (case json_loads E raw_json of
                   None \<Rightarrow> Inr []
                 | Some payload \<Rightarrow>
                     extract_candidates_from_object E payload base_url ''ldjson'' None))
       (\<lambda>found. bind_ok (ldjson_blocks E base_url blocks) (\<lambda>rest. Inr (found @ rest)))"

definition extract_ldjson_candidates :: "pyenv \<Rightarrow> string \<Rightarrow> string \<Rightarrow> exn + MediaCandidate list" where
  "extract_ldjson_candidates E html_text base_url =
     bind_ok (ldjson_blocks E base_url (LD_JSON_PATTERN_scan E html_text))
       (\<lambda>candidates. Inr (sort_and_dedupe candidates))"

text \<open>The two loops of \<open>_extract_html_candidates\<close>, over the meta tags and over the hosted URLs.\<close>

fun meta_matches :: "pyenv \<Rightarrow> string \<Rightarrow> string list \<Rightarrow> exn + MediaCandidate list" where
  "meta_matches E base_url [] = Inr []"
| "meta_matches E base_url (m # ms) =
     bind_ok
       (bind_ok (normalize_candidate E m base_url) (\<lambda>normalized.
          case normalized of
            None \<Rightarrow> Inr []
          | Some n \<Rightarrow>
              bind_ok (is_placeholder_image (bracketed_host_ok E) n) (\<lambda>placeholder.
                if placeholder then Inr []
                else build_candidates (bracketed_host_ok E) n ImageMedia ''meta'' ''meta'')))
       (\<lambda>found. bind_ok (meta_matches E base_url ms) (\<lambda>rest. Inr (found @ rest)))"

fun hosted_matches :: "pyenv \<Rightarrow> string \<Rightarrow> string list \<Rightarrow> exn + MediaCandidate list" where
  "hosted_matches E base_url [] = Inr []"
| "hosted_matches E base_url (m # ms) =
     bind_ok
       (bind_ok (normalize_candidate E m base_url) (\<lambda>normalized.
          case normalized of
            None \<Rightarrow> Inr []
          | Some n \<Rightarrow>
              bind_ok (infer_media_type_from_url (bracketed_host_ok E) n) (\<lambda>inferred.
                case inferred of
                  None \<Rightarrow> Inr []
                | Some mtype \<Rightarrow>
                    bind_ok (if mtype = ImageMedia
                             then is_placeholder_image (bracketed_host_ok E) n
                             else Inr False) (\<lambda>placeholder.
                      if placeholder then Inr []
                      else build_candidates (bracketed_host_ok E) n mtype ''html-regex'' []))))
       (\<lambda>found. bind_ok (hosted_matches E base_url ms) (\<lambda>rest. Inr (found @ rest)))"

definition extract_html_candidates :: "pyenv \<Rightarrow> string \<Rightarrow> string \<Rightarrow> exn + MediaCandidate list" where
  "extract_html_candidates E html_text base_url =
     bind_ok (meta_matches E base_url (META_IMAGE_PATTERNS_scan E html_text)) (\<lambda>from_meta.
     bind_ok (extract_ldjson_candidates E html_text base_url) (\<lambda>ldjson_candidates.
       let candidates = from_meta @ ldjson_candidates
       in if candidates \<noteq> [] then Inr (sort_and_dedupe candidates)
          else bind_ok (hosted_matches E base_url (HOSTED_MEDIA_PATTERN_scan E html_text))
                 (\<lambda>hosted. Inr (sort_and_dedupe hosted))))"

text \<open>
  The comprehension that keeps the videos and the candidates on one of the two
  preferred hosts.
\<close>

fun preferred_items :: "(string \<Rightarrow> bool) \<Rightarrow> MediaCandidate list \<Rightarrow> exn + MediaCandidate list" where
  "preferred_items bh [] = Inr []"
| "preferred_items bh (item # items) =
     bind_ok (if cand_media_type item = VideoMedia then Inr True
              else bind_ok (urlparse bh (cand_url item)) (\<lambda>parsed.
                     Inr (lower (netloc parsed) \<in> {''i.pinimg.com'', ''v1.pinimg.com''}))) (\<lambda>keep.
     bind_ok (preferred_items bh items) (\<lambda>rest.
       Inr (if keep then item # rest else rest)))"

text \<open>
  The replies to the requests of one call of \<open>resolve_media_candidates\<close>, in the order
  in which it may send them: the page, the oEmbed lookup of the pin id, the item-info
  endpoint, and the oEmbed lookup of the media.
\<close>

record resolver_replies =
  page_reply :: http_reply
  oembed_id_reply :: http_reply
  api_reply :: http_reply
  oembed_media_reply :: http_reply

text \<open>The private API strategy: the pin id, then the item-info endpoint.\<close>

definition api_strategy :: "pyenv \<Rightarrow> resolver_replies \<Rightarrow> string \<Rightarrow> string \<Rightarrow> string \<Rightarrow> exn + MediaCandidate list" where
  "api_strategy E net normalized final_url body =
     bind_ok (case extract_pin_id final_url of
                Some pin_id \<Rightarrow> Inr (Some pin_id)
              | None \<Rightarrow>
                  (case extract_pin_id normalized of
                     Some pin_id \<Rightarrow> Inr (Some pin_id)
                   | None \<Rightarrow>
                       (case extract_pin_id body of
                          Some pin_id \<Rightarrow> Inr (Some pin_id)
                        | None \<Rightarrow> resolve_pin_id_via_oembed (oembed_id_reply net)))) (\<lambda>found.
       case found of
         None \<Rightarrow> Inr []
       | Some pin_id \<Rightarrow> fetch_pin_api_candidates E pin_id (api_reply net))"

text \<open>The HTML strategy: the scraped candidates, the oEmbed candidates, and the post-filter.\<close>

definition html_strategy :: "pyenv \<Rightarrow> resolver_replies \<Rightarrow> string \<Rightarrow> string \<Rightarrow> exn + MediaCandidate list" where
  "html_strategy E net final_url body =
     bind_ok (extract_html_candidates E body final_url) (\<lambda>html_candidates.
     bind_ok (fetch_oembed_media_candidates E final_url (oembed_media_reply net)) (\<lambda>oembed.
       let deduped = sort_and_dedupe (html_candidates @ oembed)
       in bind_ok (preferred_items (bracketed_host_ok E) deduped) (\<lambda>preferred.
            Inr (if preferred \<noteq> [] then preferred else deduped))))"

definition resolve_media_candidates :: "pyenv \<Rightarrow> resolver_replies \<Rightarrow> string \<Rightarrow> exn + MediaCandidate list" where
  "resolve_media_candidates E net pin_url =
     (let bh = bracketed_host_ok E;
          normalized = normalize_url pin_url
      in if \<not> is_valid_http_url bh normalized then Inl (ResolutionError ''Invalid URL format.'')
         else
           bind_ok (urlparse bh normalized) (\<lambda>parsed.
           bind_ok (infer_media_type_from_url bh normalized) (\<lambda>direct_media_type.
             case (if is_pinimg_host (netloc parsed) then direct_media_type else None) of
               Some mtype \<Rightarrow>
                 bind_ok (build_candidates bh normalized mtype ''direct'' ''orig'')
                   (\<lambda>candidates. Inr (sort_and_dedupe candidates))
             | None \<Rightarrow>
                 (case page_reply net of
                    Failed \<Rightarrow> Inl RequestException
                  | Reply final_url st body js \<Rightarrow>
                      if http_error st then Inl RequestException
                      else
                        bind_ok (infer_media_type_from_url bh final_url) (\<lambda>final_media_type.
                        bind_ok (urlparse bh final_url) (\<lambda>final_parsed.
                          case (if is_pinimg_host (netloc final_parsed) then final_media_type
                                else None) of
                            Some mtype \<Rightarrow>
                              bind_ok (build_candidates bh final_url mtype ''redirect'' ''orig'')
                                (\<lambda>candidates. Inr (sort_and_dedupe candidates))
                          | None \<Rightarrow>
                              bind_ok (api_strategy E net normalized final_url body) (\<lambda>api_candidates.
                                if api_candidates \<noteq> [] then Inr (sort_and_dedupe api_candidates)
                                else
                                  bind_ok (html_strategy E net final_url body) (\<lambda>deduped.
                                    if deduped = []
                                    then Inl (ResolutionError
                                      ''Could not detect image or video media on this Pinterest page.'')
                                    else Inr deduped))))))))"

section \<open>app/services/profile_collector.py\<close>

record ProfileCollectionResult =
  profile_url :: string
  profile_username :: string
  pin_urls :: "string list"
  discovered_count :: int

text \<open>
  \<open>INITIAL_PROPS_SCRIPT_RE\<close>, with \<open>DOTALL\<close>, is the literal opening tag, a lazy
  \<open>(.*?)\<close>, and the literal \<open></script>\<close>: \<open>search\<close> gives the text between the first
  opening tag and the first closing tag after it.
\<close>

fun text_after :: "string \<Rightarrow> string \<Rightarrow> string option" where
  "text_after needle [] = (if needle = [] then Some [] else None)"
| "text_after needle (c # cs) =
     (if prefix needle (c # cs) then Some (drop (length needle) (c # cs))
      else text_after needle cs)"

fun text_before :: "string \<Rightarrow> string \<Rightarrow> string option" where
  "text_before needle [] = (if needle = [] then Some [] else None)"
| "text_before needle (c # cs) =
     (if prefix needle (c # cs) then Some []
      else map_option (\<lambda>r. c # r) (text_before needle cs))"

definition INITIAL_PROPS_OPEN :: string where
  "INITIAL_PROPS_OPEN =
     ''<script id='' @ [dquote] @ ''__PWS_INITIAL_PROPS__'' @ [dquote]
       @ '' type='' @ [dquote] @ ''application/json'' @ [dquote] @ ''>''"

definition INITIAL_PROPS_SCRIPT_RE_search :: "string \<Rightarrow> string option" where
  "INITIAL_PROPS_SCRIPT_RE_search html_text =
     (case text_after INITIAL_PROPS_OPEN html_text of
        None \<Rightarrow> None
      | Some rest \<Rightarrow> text_before ''</script>'' rest)"

text \<open>\<open>_parse_initial_props\<close>: the decoded object, or None.\<close>

definition parse_initial_props :: "pyenv \<Rightarrow> string \<Rightarrow> (string \<times> json) list option" where
  "parse_initial_props E html_text =
     (case INITIAL_PROPS_SCRIPT_RE_search html_text of
        None \<Rightarrow> None
      | Some body \<Rightarrow>
          (case json_loads E body of
             Some (JDict payload) \<Rightarrow> Some payload
           | _ \<Rightarrow> None))"

definition extract_user_pins_entry :: "(string \<times> json) list \<Rightarrow> (string \<times> json) list option" where
  "extract_user_pins_entry initial_props =
     (case dict_get initial_props ''initialReduxState'' of
        JDict state \<Rightarrow>
          (case dict_get state ''resources'' of
             JDict resources \<Rightarrow>
               (case dict_get resources ''UserPinsResource'' of
                  JDict ((first_key, JDict entry) # _) \<Rightarrow> Some entry
                | _ \<Rightarrow> None)
           | _ \<Rightarrow> None)
      | _ \<Rightarrow> None)"

text \<open>
  The collector's \<open>PIN_PATH_RE = /pin/(\d+)/\<close> with \<open>IGNORECASE\<close>. \<open>pin_path_here s\<close> is
  group 1 of a match that starts at the start of \<open>s\<close>; \<open>search\<close> takes the leftmost
  match, and \<open>findall\<close> collects the matches from the left without overlap (\<open>skip\<close>
  counts the characters of the last match that are still to be passed).
\<close>

definition pin_path_here :: "string \<Rightarrow> string option" where
  "pin_path_here s =
     (let digits = takeWhile re_digit (drop 5 s)
      in if lower (take 5 s) = ''/pin/'' \<and> digits \<noteq> []
            \<and> take 1 (dropWhile re_digit (drop 5 s)) = ''/''
         then Some digits else None)"

fun PIN_PATH_RE_search :: "string \<Rightarrow> string option" where
  "PIN_PATH_RE_search [] = None"
| "PIN_PATH_RE_search (c # cs) =
     (case pin_path_here (c # cs) of
        Some digits \<Rightarrow> Some digits
      | None \<Rightarrow> PIN_PATH_RE_search cs)"

fun PIN_PATH_RE_findall :: "nat \<Rightarrow> string \<Rightarrow> string list" where
  "PIN_PATH_RE_findall skip [] = []"
| "PIN_PATH_RE_findall (Suc skip) (c # cs) = PIN_PATH_RE_findall skip cs"
| "PIN_PATH_RE_findall 0 (c # cs) =
     (case pin_path_here (c # cs) of
        Some digits \<Rightarrow> digits # PIN_PATH_RE_findall (5 + length digits) cs
      | None \<Rightarrow> PIN_PATH_RE_findall 0 cs)"

fun extract_pin_urls_from_rows :: "json list \<Rightarrow> string list" where
  "extract_pin_urls_from_rows [] = []"
| "extract_pin_urls_from_rows (row # rows) =
     (case row of
        JDict r \<Rightarrow>
          (case (case dict_get r ''seo_url'' of
                   JStr seo_url \<Rightarrow> PIN_PATH_RE_search seo_url
                 | _ \<Rightarrow> None) of
             Some pin_id \<Rightarrow> [canonical_pin_url pin_id]
           | None \<Rightarrow>
               (case dict_get r ''id'' of
                  JStr pin_id \<Rightarrow> (if isdigit pin_id then [canonical_pin_url pin_id] else [])
                | _ \<Rightarrow> []))
      | _ \<Rightarrow> [])
     @ extract_pin_urls_from_rows rows"

definition extract_pin_urls_from_resource_data :: "json \<Rightarrow> string list" where
  "extract_pin_urls_from_resource_data rows =
     (case rows of JList rs \<Rightarrow> extract_pin_urls_from_rows rs | _ \<Rightarrow> [])"

definition extract_pin_urls_from_html :: "string \<Rightarrow> string list" where
  "extract_pin_urls_from_html html_text = map canonical_pin_url (PIN_PATH_RE_findall 0 html_text)"

text \<open>\<open>_dedupe_urls\<close>: the loop with its two accumulators; the query and the fragment are dropped.\<close>

fun dedupe_urls_loop :: "(string \<Rightarrow> bool) \<Rightarrow> string list \<Rightarrow> string set \<Rightarrow> string list \<Rightarrow> exn + string list" where
  "dedupe_urls_loop bh [] seen deduped = Inr deduped"
| "dedupe_urls_loop bh (url # urls) seen deduped =
     bind_ok (urlparse bh url) (\<lambda>parsed.
       let normalized = geturl (parsed\<lparr> query := [], fragment := [] \<rparr>)
       in if normalized \<notin> seen
          then dedupe_urls_loop bh urls (insert normalized seen) (deduped @ [normalized])
          else dedupe_urls_loop bh urls seen deduped)"

definition dedupe_urls :: "(string \<Rightarrow> bool) \<Rightarrow> string list \<Rightarrow> exn + string list" where
  "dedupe_urls bh urls = dedupe_urls_loop bh urls {} []"

text \<open>
  \<open>_fetch_user_pins_page\<close>, from the reply to the POST: the rows and the next bookmark.
  The status 403 is read before \<open>raise_for_status\<close>.
\<close>

definition is_dict :: "json \<Rightarrow> bool" where
  "is_dict v = (case v of JDict d \<Rightarrow> True | _ \<Rightarrow> False)"

definition fetch_user_pins_page :: "http_reply \<Rightarrow> exn + json list \<times> string" where
  "fetch_user_pins_page reply =
     (case reply of
        Failed \<Rightarrow> Inl RequestException
      | Reply u st txt js \<Rightarrow>
          if st = 403 then Inr ([], ''-end-'')
          else if http_error st then Inl RequestException
          else
            (case js of
               None \<Rightarrow> Inr ([], ''-end-'')
             | Some payload_json \<Rightarrow>
                 (case payload_json of
                    JDict obj \<Rightarrow>
                      (case dict_get obj ''resource_response'' of
                         JDict resource_response \<Rightarrow>
                           (let bookmark_value =
                                  (case dict_get resource_response ''bookmark'' of
                                     JStr b \<Rightarrow> b
                                   | _ \<Rightarrow> ''-end-'')
                            in case dict_get resource_response ''data'' of
                                 JList rows \<Rightarrow> Inr (filter is_dict rows, bookmark_value)
                               | _ \<Rightarrow> Inr ([], bookmark_value))
                       | _ \<Rightarrow> Inr ([], ''-end-''))
                  | _ \<Rightarrow> Inl AttributeError)))"

definition can_continue_pagination :: "json \<Rightarrow> int \<Rightarrow> nat \<Rightarrow> bool" where
  "can_continue_pagination bookmark max_pins current_count =
     (if max_pins > 0 \<and> int current_count \<ge> max_pins then False
      else (case bookmark of
              JStr b \<Rightarrow> (if b = [] then False else if b = ''-end-'' then False else True)
            | _ \<Rightarrow> False))"

text \<open>
  The pagination loop. The endpoint's answers are the list \<open>replies\<close>, one for each
  request in the order in which they are sent. The loop may go on for ever; a run that
  asks for more answers than \<open>replies\<close> holds has not finished, and its outcome is
  \<open>None\<close>. Next to the outcome the model returns \<open>sent\<close>, the cursors posted to the
  endpoint, in order.
\<close>

record pagination =
  sent :: "string list"
  outcome :: "(exn + string list) option"

fun paginate :: "http_reply list \<Rightarrow> json \<Rightarrow> int \<Rightarrow> string list \<Rightarrow> string set \<Rightarrow> string list \<Rightarrow> pagination" where
  "paginate replies bookmark max_pins collected seen_bookmarks posted =
     (if \<not> can_continue_pagination bookmark max_pins (length collected)
      then \<lparr> sent = posted, outcome = Some (Inr collected) \<rparr>
      else
        (case bookmark of
           JStr b \<Rightarrow>
             if b \<in> seen_bookmarks then \<lparr> sent = posted, outcome = Some (Inr collected) \<rparr>
             else
               (case replies of
                  [] \<Rightarrow> \<lparr> sent = posted @ [b], outcome = None \<rparr>
                | reply # later \<Rightarrow>
                    (case fetch_user_pins_page reply of
                       Inl e \<Rightarrow> \<lparr> sent = posted @ [b], outcome = Some (Inl e) \<rparr>
                     | Inr (page_data, next_bookmark) \<Rightarrow>
                         if page_data = []
                         then \<lparr> sent = posted @ [b], outcome = Some (Inr collected) \<rparr>
                         else paginate later (JStr next_bookmark) max_pins
                                (collected @ extract_pin_urls_from_rows page_data)
                                (insert b seen_bookmarks) (posted @ [b])))
         | _ \<Rightarrow> \<lparr> sent = posted, outcome = Some (Inr collected) \<rparr>))"

declare paginate.simps [simp del]

text \<open>\<open>deduped[:max_pins]\<close> for a positive \<open>max_pins\<close>.\<close>

definition truncate_to :: "int \<Rightarrow> string list \<Rightarrow> string list" where
  "truncate_to max_pins deduped = (if max_pins > 0 then take (nat max_pins) deduped else deduped)"

text \<open>
  \<open>collect_profile_pin_urls\<close>, from the reply to the GET of the profile page and the
  replies of the paginated endpoint. The result is the list of the cursors posted to
  the endpoint and the outcome (None for a run that has not finished). The two ways in
  which the function builds its result come first: the fallback on the page body, and
  the end of the main path.
\<close>

definition fallback_result :: "(string \<Rightarrow> bool) \<Rightarrow> string \<Rightarrow> string \<Rightarrow> string \<Rightarrow> int \<Rightarrow> exn + ProfileCollectionResult" where
  "fallback_result bh canonical_profile username body max_pins =
     (let fallback = extract_pin_urls_from_html body
      in if fallback = []
         then Inl (ProfileCollectionError ''No pins were detected on this profile.'')
         else
           bind_ok (dedupe_urls bh fallback) (\<lambda>deduped0.
             let deduped = truncate_to max_pins deduped0
             in Inr \<lparr> profile_url = canonical_profile, profile_username = username,
                      pin_urls = deduped, discovered_count = int (length deduped) \<rparr>))"

definition collected_result :: "(string \<Rightarrow> bool) \<Rightarrow> string \<Rightarrow> string \<Rightarrow> string list \<Rightarrow> int \<Rightarrow> exn + ProfileCollectionResult" where
  "collected_result bh canonical_profile username collected max_pins =
     bind_ok (dedupe_urls bh collected) (\<lambda>deduped0.
       let deduped = truncate_to max_pins deduped0
       in if deduped = []
          then Inl (ProfileCollectionError ''No downloadable pins found on this profile.'')
          else Inr \<lparr> profile_url = canonical_profile, profile_username = username,
                     pin_urls = deduped, discovered_count = int (length deduped) \<rparr>)"

definition collect_from_page :: "pyenv \<Rightarrow> string \<Rightarrow> http_reply list \<Rightarrow> string \<Rightarrow> string \<Rightarrow> int \<Rightarrow> string list \<times> (exn + ProfileCollectionResult) option" where
  "collect_from_page E body replies canonical_profile username max_pins =
     (case parse_initial_props E body of
        None \<Rightarrow>
          ([], Some (Inl (ProfileCollectionError
             ''Could not parse profile data from Pinterest page.'')))
      | Some initial_data \<Rightarrow>
          if initial_data = [] then
            ([], Some (Inl (ProfileCollectionError
               ''Could not parse profile data from Pinterest page.'')))
          else
            (case (case extract_user_pins_entry initial_data of
                     None \<Rightarrow> None
                   | Some entry \<Rightarrow> if entry = [] then None else Some entry) of
               None \<Rightarrow>
                 ([], Some (fallback_result (bracketed_host_ok E) canonical_profile username
                              body max_pins))
             | Some initial_entry \<Rightarrow>
                 (let run = paginate replies (dict_get initial_entry ''nextBookmark'') max_pins
                              (extract_pin_urls_from_resource_data
                                 (dict_get initial_entry ''data''))
                              {} []
                  in (sent run,
                      (case outcome run of
                         None \<Rightarrow> None
                       | Some (Inl e) \<Rightarrow> Some (Inl e)
                       | Some (Inr collected) \<Rightarrow>
                           Some (collected_result (bracketed_host_ok E) canonical_profile
                                   username collected max_pins))))))"

definition collect_profile_pin_urls :: "pyenv \<Rightarrow> http_reply \<Rightarrow> http_reply list \<Rightarrow> string \<Rightarrow> int \<Rightarrow> string list \<times> (exn + ProfileCollectionResult) option" where
  "collect_profile_pin_urls E page replies profile_url0 max_pins =
     (let bh = bracketed_host_ok E;
          normalized = normalize_url profile_url0
      in if \<not> is_valid_http_url bh normalized
         then ([], Some (Inl (ProfileCollectionError ''Invalid profile URL format.'')))
         else
           (case extract_profile_username bh normalized of
              Inl e \<Rightarrow> ([], Some (Inl e))
            | Inr None \<Rightarrow>
                ([], Some (Inl (ProfileCollectionError
                   ''Could not detect Pinterest profile username from this URL.'')))
            | Inr (Some username) \<Rightarrow>
                (case page of
                   Failed \<Rightarrow> ([], Some (Inl RequestException))
                 | Reply u st body js \<Rightarrow>
                     if http_error st then ([], Some (Inl RequestException))
                     else collect_from_page E body replies
                            (canonical_profile_url username) username max_pins)))"

text \<open>
  The library's check of a bracketed host as it was before CPython 3.11.4: every
  bracketed host is accepted. The parsing of a URL without square brackets does not
  depend on the check.
\<close>

definition any_bracketed_host :: "string \<Rightarrow> bool" where
  "any_bracketed_host host = True"

text \<open>
  A candidate list is ranked when its scores never increase from one candidate to the
  next and no two of its candidates have the same media type and URL.
\<close>

definition ranked :: "MediaCandidate list \<Rightarrow> bool" where
  "ranked cs =
     (sorted_wrt (\<lambda>a b. cand_quality_score a \<ge> cand_quality_score b) cs
      \<and> distinct (map cand_key cs))"

text \<open>
  What the loop of \<open>_sort_and_dedupe\<close> keeps true of \<open>by_key\<close> after the candidates
  \<open>cs\<close>: one entry for each key, taken from \<open>cs\<close>, with the best score of its key.
\<close>

definition by_key_inv :: "MediaCandidate list \<Rightarrow> MediaCandidate list \<Rightarrow> bool" where
  "by_key_inv cs acc =
     (distinct (map cand_key acc) \<and> cand_key ` set acc = cand_key ` set cs \<and> set acc \<subseteq> set cs
      \<and> (\<forall>c\<in>set acc. \<forall>d\<in>set cs. cand_key d = cand_key c
            \<longrightarrow> cand_quality_score d \<le> cand_quality_score c))"


text \<open>
  A runtime and a network for concrete runs: no character reference is replaced,
  nothing decodes as JSON, the scans of a page find nothing, and every request fails.
\<close>

definition plain_env :: pyenv where
  "plain_env =
     \<lparr> bracketed_host_ok = any_bracketed_host,
       charref_sub = (\<lambda>s. s),
       json_loads = (\<lambda>s. None),
       META_IMAGE_PATTERNS_scan = (\<lambda>s. []),
       LD_JSON_PATTERN_scan = (\<lambda>s. []),
       HOSTED_MEDIA_PATTERN_scan = (\<lambda>s. []) \<rparr>"

definition no_replies :: resolver_replies where
  "no_replies =
     \<lparr> page_reply = Failed, oembed_id_reply = Failed, api_reply = Failed,
       oembed_media_reply = Failed \<rparr>"

text \<open>
  The exceptions of the library calls that no function of the repository catches:
  \<open>ValueError\<close> from \<open>urlparse\<close> and \<open>int\<close>, and \<open>AttributeError\<close> from \<open>get\<close> on a
  decoded payload that is not an object.
\<close>

definition library_error :: "exn \<Rightarrow> bool" where
  "library_error e = (e = ValueError \<or> e = AttributeError)"

text \<open>
  \<open>fast_path bh url\<close> is the media type with which the direct or the redirect fast path
  of the resolver takes \<open>url\<close>, and None when it does not take it.
  \<open>all_strategies_empty\<close> says that the page was fetched and that no strategy of the
  cascade found a candidate.
\<close>

definition fast_path :: "(string \<Rightarrow> bool) \<Rightarrow> string \<Rightarrow> exn + media_type option" where
  "fast_path bh url =
     bind_ok (urlparse bh url) (\<lambda>parsed.
     bind_ok (infer_media_type_from_url bh url) (\<lambda>inferred.
       Inr (if is_pinimg_host (netloc parsed) then inferred else None)))"

definition all_strategies_empty :: "pyenv \<Rightarrow> resolver_replies \<Rightarrow> string \<Rightarrow> bool" where
  "all_strategies_empty E net pin_url =
     (fast_path (bracketed_host_ok E) (normalize_url pin_url) = Inr None
      \<and> (case page_reply net of
            Failed \<Rightarrow> False
          | Reply final_url st body js \<Rightarrow>
              \<not> http_error st
              \<and> fast_path (bracketed_host_ok E) final_url = Inr None
              \<and> api_strategy E net (normalize_url pin_url) final_url body = Inr []
              \<and> html_strategy E net final_url body = Inr []))"

text \<open>
  What \<open>resolve_media_candidates\<close> does once the page is fetched, written with
  \<open>fast_path\<close>.
\<close>

definition after_page :: "pyenv \<Rightarrow> resolver_replies \<Rightarrow> string \<Rightarrow> string \<Rightarrow> string \<Rightarrow> exn + MediaCandidate list" where
  "after_page E net normalized final_url body =
     bind_ok (fast_path (bracketed_host_ok E) final_url) (\<lambda>fast.
       case fast of
         Some mtype \<Rightarrow>
           bind_ok (build_candidates (bracketed_host_ok E) final_url mtype ''redirect'' ''orig'')
             (\<lambda>candidates. Inr (sort_and_dedupe candidates))
       | None \<Rightarrow>
           bind_ok (api_strategy E net normalized final_url body) (\<lambda>api_candidates.
             if api_candidates \<noteq> [] then Inr (sort_and_dedupe api_candidates)
             else
               bind_ok (html_strategy E net final_url body) (\<lambda>deduped.
                 if deduped = []
                 then Inl (ResolutionError
                   ''Could not detect image or video media on this Pinterest page.'')
                 else Inr deduped)))"


text \<open>
  A result of the collector is counted when its \<open>discovered_count\<close> is the length of
  its \<open>pin_urls\<close>, these are pairwise different, and a positive \<open>max_pins\<close> bounds the
  count.
\<close>

definition counted :: "int \<Rightarrow> ProfileCollectionResult \<Rightarrow> bool" where
  "counted max_pins r =
     (discovered_count r = int (length (pin_urls r)) \<and> distinct (pin_urls r)
      \<and> (0 < max_pins \<longrightarrow> discovered_count r \<le> max_pins))"


text \<open>
  A concrete profile page for the runs below: its initial state names two pins and the
  cursor \<open>B1\<close>, and the endpoint answers every request with one more pin and the same
  cursor \<open>B1\<close> again.
\<close>

definition quoted :: "string \<Rightarrow> string" where
  "quoted s = dquote # s @ [dquote]"

definition two_pins_text :: string where
  "two_pins_text =
     ''{'' @ quoted ''initialReduxState'' @ '':{'' @ quoted ''resources'' @ '':{''
       @ quoted ''UserPinsResource'' @ '':{'' @ quoted ''k'' @ '':{''
       @ quoted ''data'' @ '':[{'' @ quoted ''id'' @ '':'' @ quoted ''11'' @ ''},{''
       @ quoted ''id'' @ '':'' @ quoted ''22'' @ ''}],''
       @ quoted ''nextBookmark'' @ '':'' @ quoted ''B1'' @ ''}}}}}''"

definition two_pins_props :: json where
  "two_pins_props =
     JDict [(''initialReduxState'', JDict [(''resources'', JDict [(''UserPinsResource'',
        JDict [(''k'', JDict [(''data'', JList [JDict [(''id'', JStr ''11'')],
                                                JDict [(''id'', JStr ''22'')]]),
                              (''nextBookmark'', JStr ''B1'')])])])])]"

definition profile_env :: pyenv where
  "profile_env =
     plain_env\<lparr> json_loads := (\<lambda>s. if s = two_pins_text then Some two_pins_props else None) \<rparr>"

definition profile_body :: string where
  "profile_body = ''<html>'' @ INITIAL_PROPS_OPEN @ two_pins_text @ ''</script></html>''"

definition profile_page :: http_reply where
  "profile_page = Reply ''https://www.pinterest.com/alice/'' 200 profile_body None"

definition same_cursor_reply :: http_reply where
  "same_cursor_reply =
     Reply ''https://www.pinterest.com/resource/UserPinsResource/get/'' 200 []
       (Some (JDict [(''resource_response'',
          JDict [(''data'', JList [JDict [(''id'', JStr ''33'')]]),
                 (''bookmark'', JStr ''B1'')])]))"

text \<open>A page that is fetched and has nothing in it, for a run in which every strategy fails.\<close>

definition empty_page :: resolver_replies where
  "empty_page = no_replies\<lparr> page_reply := Reply ''https://www.pinterest.com/pin/1/'' 200 [] None \<rparr>"


section \<open>Facts about the string helpers\<close>

lemma rstrip_of_keep: "\<not> P c \<Longrightarrow> rstrip_of P (c # s) = c # rstrip_of P s"
  by (simp add: rstrip_of_def dropWhile_append)

lemma strip_keeps_underscore: "prefix ''_'' s \<Longrightarrow> prefix ''_'' (lower (strip s))"
  by (cases s)
     (auto simp: strip_def strip_of_def lstrip_of_def rstrip_of_keep is_space_def code_def
                 lower_def lower_char_def ascii_upper_def)

lemma strip_lower_reserved:
  "s \<in> RESERVED_PROFILE_SEGMENTS \<Longrightarrow> lower (strip s) \<in> RESERVED_PROFILE_SEGMENTS"
  unfolding RESERVED_PROFILE_SEGMENTS_def
  by (auto simp: strip_def strip_of_def lstrip_of_def rstrip_of_def is_space_def code_def
                 lower_def lower_char_def ascii_upper_def)

section \<open>Facts about exceptions\<close>

lemma bind_ok_Inr_iff: "bind_ok m f = Inr y \<longleftrightarrow> (\<exists>x. m = Inr x \<and> f x = Inr y)"
  by (cases m) auto

lemma bind_ok_Inl_iff: "bind_ok m f = Inl e \<longleftrightarrow> (m = Inl e \<or> (\<exists>x. m = Inr x \<and> f x = Inl e))"
  by (cases m) auto

section \<open>Deduplication and ranking\<close>

lemma by_key_store_set: "set (by_key_store x acc) \<subseteq> insert x (set acc)"
  by (induction acc) auto

lemma by_key_store_keys:
  "cand_key ` set (by_key_store x acc) = insert (cand_key x) (cand_key ` set acc)"
  by (induction acc) auto

lemma by_key_store_distinct:
  "distinct (map cand_key acc) \<Longrightarrow> distinct (map cand_key (by_key_store x acc))"
proof (induction acc)
  case Nil
  then show ?case by simp
next
  case (Cons e es)
  have "cand_key e \<notin> cand_key ` set es" using Cons.prems by auto
  then show ?case using Cons by (auto simp: by_key_store_keys)
qed

lemma key_not_in_rest:
  "distinct (map cand_key (e # es)) \<Longrightarrow> e' \<in> set es \<Longrightarrow> cand_key e' \<noteq> cand_key e"
  by (auto simp: image_iff)

lemma by_key_store_ge:
  "distinct (map cand_key acc) \<Longrightarrow> c \<in> set (by_key_store x acc) \<Longrightarrow> cand_key c = cand_key x
     \<Longrightarrow> cand_quality_score x \<le> cand_quality_score c"
proof (induction acc)
  case Nil
  then show ?case by simp
next
  case (Cons e es)
  show ?case
  proof (cases "cand_key e = cand_key x")
    case True
    then have "\<forall>e'\<in>set es. cand_key e' \<noteq> cand_key x"
      using key_not_in_rest [OF Cons.prems(1)] by auto
    then show ?thesis using Cons.prems True by (auto split: if_splits)
  next
    case False
    then show ?thesis using Cons by auto
  qed
qed

lemma by_key_store_new:
  "distinct (map cand_key acc) \<Longrightarrow> c \<in> set (by_key_store x acc) \<Longrightarrow> c \<notin> set acc
     \<Longrightarrow> c = x \<and> (\<forall>e\<in>set acc. cand_key e = cand_key x
                        \<longrightarrow> cand_quality_score e < cand_quality_score x)"
proof (induction acc)
  case Nil
  then show ?case by simp
next
  case (Cons e es)
  show ?case
  proof (cases "cand_key e = cand_key x")
    case True
    then have "\<forall>e'\<in>set es. cand_key e' \<noteq> cand_key x"
      using key_not_in_rest [OF Cons.prems(1)] by auto
    then show ?thesis using Cons.prems True by (auto split: if_splits)
  next
    case False
    then show ?thesis using Cons by auto
  qed
qed

lemma by_key_inv_step:
  assumes "by_key_inv cs acc"
  shows "by_key_inv (cs @ [x]) (by_key_store x acc)"
proof -
  from assms have d: "distinct (map cand_key acc)"
    and k: "cand_key ` set acc = cand_key ` set cs"
    and s: "set acc \<subseteq> set cs"
    and b: "\<forall>c\<in>set acc. \<forall>d\<in>set cs. cand_key d = cand_key c
              \<longrightarrow> cand_quality_score d \<le> cand_quality_score c"
    by (auto simp: by_key_inv_def)
  have 1: "distinct (map cand_key (by_key_store x acc))"
    using d by (rule by_key_store_distinct)
  have 2: "cand_key ` set (by_key_store x acc) = cand_key ` set (cs @ [x])"
    using k by (simp add: by_key_store_keys)
  have 3: "set (by_key_store x acc) \<subseteq> set (cs @ [x])"
    using by_key_store_set [of x acc] s by auto
  have 4: "cand_quality_score d' \<le> cand_quality_score c"
    if c: "c \<in> set (by_key_store x acc)" and d': "d' \<in> set (cs @ [x])"
      and e: "cand_key d' = cand_key c" for c d'
  proof (cases "c \<in> set acc")
    case True
    show ?thesis
    proof (cases "d' = x")
      case True
      then show ?thesis using by_key_store_ge [OF d c] e by simp
    next
      case False
      then have "d' \<in> set cs" using d' by simp
      then show ?thesis using b \<open>c \<in> set acc\<close> e by blast
    qed
  next
    case False
    from by_key_store_new [OF d c False]
    have cx: "c = x"
      and lt: "\<forall>e\<in>set acc. cand_key e = cand_key x
                 \<longrightarrow> cand_quality_score e < cand_quality_score x"
      by auto
    show ?thesis
    proof (cases "d' = x")
      case True
      then show ?thesis using cx by simp
    next
      case False
      then have dcs: "d' \<in> set cs" using d' by simp
      then have "cand_key d' \<in> cand_key ` set acc" using k by auto
      then obtain e' where e': "e' \<in> set acc" "cand_key e' = cand_key d'" by auto
      then have "cand_quality_score d' \<le> cand_quality_score e'" using b dcs by auto
      moreover have "cand_quality_score e' < cand_quality_score x"
        using lt e' e cx by auto
      ultimately show ?thesis using cx by simp
    qed
  qed
  show ?thesis
    unfolding by_key_inv_def using 1 2 3 4 by blast
qed

lemma by_key_inv_foldl:
  "by_key_inv cs (foldl (\<lambda>acc item. by_key_store item acc) [] cs)"
proof (induction cs rule: rev_induct)
  case Nil
  then show ?case by (simp add: by_key_inv_def)
next
  case (snoc x xs)
  then show ?case using by_key_inv_step by simp
qed

lemma sort_and_dedupe_ranked: "ranked (sort_and_dedupe cs)"
proof -
  let ?acc = "foldl (\<lambda>acc item. by_key_store item acc) [] cs"
  have "distinct (map cand_key ?acc)"
    using by_key_inv_foldl [of cs] by (simp add: by_key_inv_def)
  then have "distinct (map cand_key (sort_key (\<lambda>item. - cand_quality_score item) ?acc))"
    by (simp add: distinct_map)
  moreover have "sorted (map (\<lambda>item. - cand_quality_score item)
                   (sort_key (\<lambda>item. - cand_quality_score item) ?acc))"
    by (rule sorted_sort_key)
  then have "sorted_wrt (\<lambda>a b. cand_quality_score a \<ge> cand_quality_score b)
               (sort_key (\<lambda>item. - cand_quality_score item) ?acc)"
    by (simp add: sorted_map)
  ultimately show ?thesis by (simp add: ranked_def sort_and_dedupe_def)
qed

lemma sort_and_dedupe_set:
  "set (sort_and_dedupe cs) \<subseteq> set cs \<and> cand_key ` set (sort_and_dedupe cs) = cand_key ` set cs"
  using by_key_inv_foldl [of cs] by (simp add: by_key_inv_def sort_and_dedupe_def)

lemma sort_and_dedupe_best:
  assumes "c \<in> set (sort_and_dedupe cs)"
  shows "cand_quality_score c = Max (cand_quality_score ` {d \<in> set cs. cand_key d = cand_key c})"
proof -
  let ?acc = "foldl (\<lambda>acc item. by_key_store item acc) [] cs"
  have c: "c \<in> set ?acc" using assms by (simp add: sort_and_dedupe_def)
  have inv: "by_key_inv cs ?acc" by (rule by_key_inv_foldl)
  have "c \<in> set cs" using inv c by (auto simp: by_key_inv_def)
  moreover have "\<forall>d\<in>set cs. cand_key d = cand_key c
                   \<longrightarrow> cand_quality_score d \<le> cand_quality_score c"
    using inv c by (auto simp: by_key_inv_def)
  ultimately show ?thesis
    by (intro Max_eqI [symmetric]) auto
qed

lemma sort_and_dedupe_Nil_iff: "sort_and_dedupe cs = [] \<longleftrightarrow> cs = []"
proof -
  have "set (sort_and_dedupe cs) = {} \<longleftrightarrow> set cs = {}"
    using sort_and_dedupe_set [of cs] by (metis image_is_empty)
  then show ?thesis by simp
qed

section \<open>The cascade returns ranked lists\<close>

lemma ranked_Nil: "ranked []"
  by (simp add: ranked_def)

lemma sort_and_dedupe_Nil: "sort_and_dedupe [] = []"
  by (simp add: sort_and_dedupe_def)

lemma ranked_filter: "ranked xs \<Longrightarrow> ranked (filter P xs)"
  by (simp add: ranked_def sorted_wrt_filter distinct_map_filter)

lemma preferred_items_filter:
  "preferred_items bh xs = Inr ys \<Longrightarrow>
     ys = filter (\<lambda>item. cand_media_type item = VideoMedia
                    \<or> (\<exists>parsed. urlparse bh (cand_url item) = Inr parsed
                          \<and> lower (netloc parsed) \<in> {''i.pinimg.com'', ''v1.pinimg.com''})) xs"
proof (induction xs arbitrary: ys)
  case Nil
  then show ?case by simp
next
  case (Cons x xs)
  from Cons.prems obtain keep rest where
    k: "(if cand_media_type x = VideoMedia then Inr True
         else bind_ok (urlparse bh (cand_url x)) (\<lambda>parsed.
                Inr (lower (netloc parsed) \<in> {''i.pinimg.com'', ''v1.pinimg.com''}))) = Inr keep"
    and r: "preferred_items bh xs = Inr rest"
    and ys: "ys = (if keep then x # rest else rest)"
    by (auto simp: bind_ok_Inr_iff)
  from k have "keep \<longleftrightarrow> cand_media_type x = VideoMedia
                    \<or> (\<exists>parsed. urlparse bh (cand_url x) = Inr parsed
                          \<and> lower (netloc parsed) \<in> {''i.pinimg.com'', ''v1.pinimg.com''})"
    by (auto simp: bind_ok_Inr_iff split: if_splits)
  then show ?case using Cons.IH [OF r] ys by simp
qed

lemma html_strategy_ranked: "html_strategy E net final_url body = Inr out \<Longrightarrow> ranked out"
  unfolding html_strategy_def Let_def
  by (auto simp: bind_ok_Inr_iff sort_and_dedupe_ranked ranked_filter ranked_Nil
           dest!: preferred_items_filter split: if_splits)

lemma resolve_media_candidates_ranked:
  "resolve_media_candidates E net pin_url = Inr out \<Longrightarrow> ranked out"
  unfolding resolve_media_candidates_def Let_def
  by (auto simp: bind_ok_Inr_iff sort_and_dedupe_ranked
           dest: html_strategy_ranked split: if_splits option.splits http_reply.splits)

lemma html_strategy_Nil:
  "html_strategy E net final_url body = Inr [] \<longleftrightarrow>
     (\<exists>html_candidates oembed.
        extract_html_candidates E body final_url = Inr html_candidates
        \<and> fetch_oembed_media_candidates E final_url (oembed_media_reply net) = Inr oembed
        \<and> html_candidates = [] \<and> oembed = [])"
  unfolding html_strategy_def Let_def
  by (auto simp: bind_ok_Inr_iff sort_and_dedupe_Nil_iff sort_and_dedupe_Nil split: if_splits)

section \<open>Bounds on the scores\<close>

lemma digits_value_fold_nonneg:
  "0 \<le> a \<Longrightarrow> 0 \<le> foldl (\<lambda>acc c. 10 * acc + int (code c - 48)) a s"
  by (induction s arbitrary: a) auto

lemma py_int_nonneg: "py_int s = Inr n \<Longrightarrow> 0 \<le> n"
  by (auto simp: py_int_def digits_value_def digits_value_fold_nonneg split: if_splits)

lemma score_video_lower_bound:
  assumes "score_video bh url size_hint = Inr s"
  shows "19550 \<le> s"
  using assms unfolding score_video_def Let_def
  by (auto simp: bind_ok_Inr_iff split: if_splits option.splits dest!: py_int_nonneg)

lemma score_image_upper_bound:
  assumes "score_image bh url size_hint = Inr s"
    and "urlparse bh url = Inr parsed"
    and "size_bonus (path_segments (lower (path parsed))) = Inr bonus"
  shows "s \<le> 10300 + bonus"
  using assms unfolding score_image_def Let_def
  by (auto simp: bind_ok_Inr_iff split: if_splits)


section \<open>The item-info payload with one 736x image\<close>

lemmas char_class_defs =
  code_def is_space_def re_digit_def ascii_upper_def ascii_lower_def ascii_alpha_def
  lower_char_def c0_or_space_def unsafe_byte_def scheme_char_def netloc_delim_def

lemma pin_base_split:
  "\<exists>p q f. urlsplit bh (''https://www.pinterest.com/pin/'' @ pin_id @ ''/'') []
     = Inr \<lparr>scheme = ''https'', netloc = ''www.pinterest.com'', path = p, params = [],
            query = q, fragment = f\<rparr>"
  by (simp add: urlsplit_def Let_def lstrip_of_def strip_of_def rstrip_of_def
        before_def after_def lower_def char_class_defs)

lemma urlparse_with_scheme:
  "urlsplit bh url s = Inr r \<Longrightarrow> \<exists>b. urlparse_with bh url s = Inr b \<and> scheme b = scheme r \<and> netloc b = netloc r"
  by (simp add: urlparse_with_def)

lemma pin_base_scheme:
  "\<exists>b. urlparse_with bh (''https://www.pinterest.com/pin/'' @ pin_id @ ''/'') [] = Inr b
       \<and> scheme b = ''https''"
proof -
  obtain p q f where "urlsplit bh (''https://www.pinterest.com/pin/'' @ pin_id @ ''/'') []
     = Inr \<lparr>scheme = ''https'', netloc = ''www.pinterest.com'', path = p, params = [],
            query = q, fragment = f\<rparr>"
    using pin_base_split by blast
  from urlparse_with_scheme [OF this] obtain b where
    b: "urlparse_with bh (''https://www.pinterest.com/pin/'' @ pin_id @ ''/'') [] = Inr b"
    and s: "scheme b = scheme \<lparr>scheme = ''https'', netloc = ''www.pinterest.com'', path = p,
                               params = [], query = q, fragment = f\<rparr>"
    by blast
  from s have "scheme b = ''https''" by simp
  with b show ?thesis by blast
qed

lemma urlparse_with_nonempty:
  "urlparse_with bh url s = Inr u \<Longrightarrow> netloc u \<noteq> [] \<Longrightarrow> url \<noteq> []"
proof
  assume a: "urlparse_with bh url s = Inr u" "netloc u \<noteq> []" "url = []"
  have "urlsplit bh [] s = Inr \<lparr>scheme = filter (\<lambda>c. \<not> unsafe_byte c) (strip_of c0_or_space s),
          netloc = [], path = [], params = [], query = [], fragment = []\<rparr>"
    by (simp add: urlsplit_def Let_def lstrip_of_def before_def after_def)
  then show False using a by (auto simp: urlparse_with_def split: if_splits)
qed

lemma urljoin_pin_base_absolute:
  assumes "urlparse_with bh url ''https'' = Inr u" "scheme u = ''https''" "netloc u \<noteq> []"
  shows "urljoin bh (''https://www.pinterest.com/pin/'' @ pin_id @ ''/'') url = Inr (urlunparse u)"
proof -
  obtain b where b: "urlparse_with bh (''https://www.pinterest.com/pin/'' @ pin_id @ ''/'') [] = Inr b"
    "scheme b = ''https''"
    using pin_base_scheme by blast
  have "url \<noteq> []" using assms urlparse_with_nonempty by blast
  then show ?thesis using assms b
    by (simp add: urljoin_def uses_relative_def uses_netloc_def)
qed


lemma normalize_736x:
  "normalize_candidate E ''https://i.pinimg.com/736x/aa/bb/cc.jpg''
     (''https://www.pinterest.com/pin/'' @ pin_id @ ''/'')
   = Inr (Some ''https://i.pinimg.com/736x/aa/bb/cc.jpg'')"
proof -
  have u: "urlparse_with (bracketed_host_ok E) ''https://i.pinimg.com/736x/aa/bb/cc.jpg'' ''https''
        = Inr \<lparr>scheme = ''https'', netloc = ''i.pinimg.com'', path = ''/736x/aa/bb/cc.jpg'',
                    params = [], query = [], fragment = []\<rparr>"
    by code_simp
  have j: "urljoin (bracketed_host_ok E) (''https://www.pinterest.com/pin/'' @ pin_id @ ''/'')
             ''https://i.pinimg.com/736x/aa/bb/cc.jpg'' = Inr ''https://i.pinimg.com/736x/aa/bb/cc.jpg''"
    using urljoin_pin_base_absolute [OF u]
    by (simp add: urlunparse_def urlunsplit_def uses_netloc_def)
  have s: "strip ''https://i.pinimg.com/736x/aa/bb/cc.jpg'' = ''https://i.pinimg.com/736x/aa/bb/cc.jpg''"
    by code_simp
  have h: "html_unescape E ''https://i.pinimg.com/736x/aa/bb/cc.jpg'' = ''https://i.pinimg.com/736x/aa/bb/cc.jpg''"
    by (simp add: html_unescape_def)
  have r: "replace ''&amp;'' ''&''
                    (replace (backslash # ''u0026'') ''&''
                      (replace (backslash # ''u002F'') ''/''
                        (replace [backslash, CHR ''/''] ''/'' ''https://i.pinimg.com/736x/aa/bb/cc.jpg'')))
           = ''https://i.pinimg.com/736x/aa/bb/cc.jpg''"
    by code_simp
  have c: "strip_of strip_chars ''https://i.pinimg.com/736x/aa/bb/cc.jpg'' = ''https://i.pinimg.com/736x/aa/bb/cc.jpg''"
    by code_simp
  have rs: "rstrip_of rstrip_chars ''https://i.pinimg.com/736x/aa/bb/cc.jpg'' = ''https://i.pinimg.com/736x/aa/bb/cc.jpg''"
    by code_simp
  have m: "NORMALIZED_URL_RE_match ''https://i.pinimg.com/736x/aa/bb/cc.jpg'' = Some ''https://i.pinimg.com/736x/aa/bb/cc.jpg''"
    by code_simp
  have v: "is_valid_http_url (bracketed_host_ok E) ''https://i.pinimg.com/736x/aa/bb/cc.jpg''"
    by code_simp
  show ?thesis
    unfolding normalize_candidate_def Let_def s h r c
    using j rs m v by simp
qed

lemma build_736x:
  "build_candidates bh ''https://i.pinimg.com/736x/aa/bb/cc.jpg'' ImageMedia ''api-images'' ''736x''
   = Inr [\<lparr>cand_url = ''https://i.pinimg.com/originals/aa/bb/cc.jpg'',
            cand_media_type = ImageMedia, cand_quality_score = 10300,
            cand_source = ''api-images''\<rparr>,
          \<lparr>cand_url = ''https://i.pinimg.com/736x/aa/bb/cc.jpg'',
            cand_media_type = ImageMedia, cand_quality_score = 2772,
            cand_source = ''api-images''\<rparr>]"
  by code_simp

lemma placeholder_736x:
  "is_placeholder_image bh ''https://i.pinimg.com/736x/aa/bb/cc.jpg'' = Inr False"
  by code_simp

lemma sorted_736x:
  "sort_and_dedupe
     [\<lparr>cand_url = ''https://i.pinimg.com/originals/aa/bb/cc.jpg'',
        cand_media_type = ImageMedia, cand_quality_score = 10300,
        cand_source = ''api-images''\<rparr>,
      \<lparr>cand_url = ''https://i.pinimg.com/736x/aa/bb/cc.jpg'',
        cand_media_type = ImageMedia, cand_quality_score = 2772,
        cand_source = ''api-images''\<rparr>]
   = [\<lparr>cand_url = ''https://i.pinimg.com/originals/aa/bb/cc.jpg'',
        cand_media_type = ImageMedia, cand_quality_score = 10300,
        cand_source = ''api-images''\<rparr>,
      \<lparr>cand_url = ''https://i.pinimg.com/736x/aa/bb/cc.jpg'',
        cand_media_type = ImageMedia, cand_quality_score = 2772,
        cand_source = ''api-images''\<rparr>]"
  by code_simp


lemma fetch_pin_api_736x:
  assumes "\<not> http_error st"
    and "dict_get obj ''data'' = JList (JDict pin_data # others)"
    and "dict_get pin_data ''images''
           = JDict [(''736x'', JDict [(''url'', JStr ''https://i.pinimg.com/736x/aa/bb/cc.jpg'')])]"
    and "dict_get pin_data ''videos'' = JNull"
    and "dict_get pin_data ''story_pin_data'' = JNull"
    and "\<not> truthy (dict_get pin_data ''is_video'')"
  shows "fetch_pin_api_candidates E pin_id (Reply u st txt (Some (JDict obj)))
         = Inr [\<lparr>cand_url = ''https://i.pinimg.com/originals/aa/bb/cc.jpg'',
                  cand_media_type = ImageMedia, cand_quality_score = 10300,
                  cand_source = ''api-images''\<rparr>,
                \<lparr>cand_url = ''https://i.pinimg.com/736x/aa/bb/cc.jpg'',
                  cand_media_type = ImageMedia, cand_quality_score = 2772,
                  cand_source = ''api-images''\<rparr>]"
proof -
  have d: "dict_get [(''url'', JStr ''https://i.pinimg.com/736x/aa/bb/cc.jpg'')] ''url''
             = JStr ''https://i.pinimg.com/736x/aa/bb/cc.jpg''"
    by (simp add: dict_get_def)
  have i: "api_images E (''https://www.pinterest.com/pin/'' @ pin_id @ ''/'')
             [(''736x'', JDict [(''url'', JStr ''https://i.pinimg.com/736x/aa/bb/cc.jpg'')])]
           = Inr [\<lparr>cand_url = ''https://i.pinimg.com/originals/aa/bb/cc.jpg'',
                  cand_media_type = ImageMedia, cand_quality_score = 10300,
                  cand_source = ''api-images''\<rparr>,
                \<lparr>cand_url = ''https://i.pinimg.com/736x/aa/bb/cc.jpg'',
                  cand_media_type = ImageMedia, cand_quality_score = 2772,
                  cand_source = ''api-images''\<rparr>]"
    by (simp add: d normalize_736x placeholder_736x build_736x del: append.simps)
  show ?thesis
    using assms
    by (simp add: fetch_pin_api_candidates_def pin_data_candidates_def i sorted_736x
             del: append.simps api_images.simps)
qed

section \<open>The direct URL with a 236x segment\<close>

lemma normalize_url_236x:
  "normalize_url ''https://i.pinimg.com/236x/abc/def.jpg'' = ''https://i.pinimg.com/236x/abc/def.jpg''"
  by code_simp

lemma urlparse_236x:
  "urlparse bh ''https://i.pinimg.com/236x/abc/def.jpg''
   = Inr \<lparr>scheme = ''https'', netloc = ''i.pinimg.com'', path = ''/236x/abc/def.jpg'',
                    params = [], query = [], fragment = []\<rparr>"
  by code_simp

lemma infer_236x:
  "infer_media_type_from_url bh ''https://i.pinimg.com/236x/abc/def.jpg'' = Inr (Some ImageMedia)"
  by code_simp

lemma pinimg_host: "is_pinimg_host ''i.pinimg.com''"
  by code_simp

lemma build_236x_direct:
  "build_candidates bh ''https://i.pinimg.com/236x/abc/def.jpg'' ImageMedia ''direct'' ''orig''
   = Inr [\<lparr>cand_url = ''https://i.pinimg.com/originals/abc/def.jpg'',
            cand_media_type = ImageMedia, cand_quality_score = 10300,
            cand_source = ''direct''\<rparr>,
          \<lparr>cand_url = ''https://i.pinimg.com/236x/abc/def.jpg'',
            cand_media_type = ImageMedia, cand_quality_score = 10772,
            cand_source = ''direct''\<rparr>]"
  by code_simp

lemma build_236x_api:
  "build_candidates bh ''https://i.pinimg.com/236x/abc/def.jpg'' ImageMedia ''api-images'' ''236x''
   = Inr [\<lparr>cand_url = ''https://i.pinimg.com/originals/abc/def.jpg'',
            cand_media_type = ImageMedia, cand_quality_score = 10300,
            cand_source = ''api-images''\<rparr>,
          \<lparr>cand_url = ''https://i.pinimg.com/236x/abc/def.jpg'',
            cand_media_type = ImageMedia, cand_quality_score = 1772,
            cand_source = ''api-images''\<rparr>]"
  by code_simp

lemma sort_236x_direct:
  "sort_and_dedupe
       [\<lparr>cand_url = ''https://i.pinimg.com/originals/abc/def.jpg'',
            cand_media_type = ImageMedia, cand_quality_score = 10300,
            cand_source = ''direct''\<rparr>,
          \<lparr>cand_url = ''https://i.pinimg.com/236x/abc/def.jpg'',
            cand_media_type = ImageMedia, cand_quality_score = 10772,
            cand_source = ''direct''\<rparr>]
   = [\<lparr>cand_url = ''https://i.pinimg.com/236x/abc/def.jpg'',
            cand_media_type = ImageMedia, cand_quality_score = 10772,
            cand_source = ''direct''\<rparr>,
          \<lparr>cand_url = ''https://i.pinimg.com/originals/abc/def.jpg'',
            cand_media_type = ImageMedia, cand_quality_score = 10300,
            cand_source = ''direct''\<rparr>]"
  by code_simp

lemma sort_236x_api:
  "sort_and_dedupe
       [\<lparr>cand_url = ''https://i.pinimg.com/originals/abc/def.jpg'',
            cand_media_type = ImageMedia, cand_quality_score = 10300,
            cand_source = ''api-images''\<rparr>,
          \<lparr>cand_url = ''https://i.pinimg.com/236x/abc/def.jpg'',
            cand_media_type = ImageMedia, cand_quality_score = 1772,
            cand_source = ''api-images''\<rparr>]
   = [\<lparr>cand_url = ''https://i.pinimg.com/originals/abc/def.jpg'',
            cand_media_type = ImageMedia, cand_quality_score = 10300,
            cand_source = ''api-images''\<rparr>,
          \<lparr>cand_url = ''https://i.pinimg.com/236x/abc/def.jpg'',
            cand_media_type = ImageMedia, cand_quality_score = 1772,
            cand_source = ''api-images''\<rparr>]"
  by code_simp


section \<open>The exceptions of the library calls\<close>

lemma urlsplit_raises: "urlsplit bh url s = Inl e \<Longrightarrow> e = ValueError"
  by (simp add: urlsplit_def Let_def split: if_splits)

lemma urlparse_with_raises: "urlparse_with bh url s = Inl e \<Longrightarrow> e = ValueError"
  by (auto simp: urlparse_with_def split: sum.splits if_splits dest: urlsplit_raises)

lemma urlparse_raises: "urlparse bh url = Inl e \<Longrightarrow> e = ValueError"
  by (simp add: urlparse_def urlparse_with_raises)

lemma py_int_raises: "py_int s = Inl e \<Longrightarrow> e = ValueError"
  by (simp add: py_int_def split: if_splits)

lemma infer_raises: "infer_media_type_from_url bh url = Inl e \<Longrightarrow> e = ValueError"
  by (auto simp: infer_media_type_from_url_def bind_ok_Inl_iff Let_def
           split: if_splits list.splits dest: urlparse_raises)

lemma is_placeholder_raises: "is_placeholder_image bh url = Inl e \<Longrightarrow> e = ValueError"
  by (auto simp: is_placeholder_image_def bind_ok_Inl_iff Let_def
           split: if_splits dest: urlparse_raises)

lemma pinimg_variants_raises: "pinimg_variants bh url = Inl e \<Longrightarrow> e = ValueError"
  by (auto simp: pinimg_variants_def bind_ok_Inl_iff Let_def
           split: if_splits list.splits dest: urlparse_raises)

lemma size_bonus_raises: "size_bonus segs = Inl e \<Longrightarrow> e = ValueError"
  by (auto simp: size_bonus_def bind_ok_Inl_iff Let_def
           split: if_splits list.splits dest: py_int_raises)

lemma score_image_raises: "score_image bh url h = Inl e \<Longrightarrow> e = ValueError"
  by (auto simp: score_image_def bind_ok_Inl_iff Let_def
           split: if_splits dest: urlparse_raises size_bonus_raises)

lemma score_video_raises: "score_video bh url h = Inl e \<Longrightarrow> e = ValueError"
  by (auto simp: score_video_def bind_ok_Inl_iff Let_def
           split: if_splits option.splits dest: urlparse_raises py_int_raises)

lemma score_variants_raises: "score_variants bh vs src h = Inl e \<Longrightarrow> e = ValueError"
  by (induction vs) (auto simp: bind_ok_Inl_iff dest: score_image_raises)

lemma build_candidates_raises: "build_candidates bh url t src h = Inl e \<Longrightarrow> e = ValueError"
  by (auto simp: build_candidates_def bind_ok_Inl_iff split: if_splits
           dest: pinimg_variants_raises score_variants_raises score_video_raises)

lemma urljoin_raises: "urljoin bh base url = Inl e \<Longrightarrow> e = ValueError"
  by (auto simp: urljoin_def bind_ok_Inl_iff Let_def split: if_splits
           dest: urlparse_with_raises)

lemma normalize_candidate_raises: "normalize_candidate E v base = Inl e \<Longrightarrow> e = ValueError"
  by (auto simp: normalize_candidate_def bind_ok_Inl_iff Let_def split: if_splits option.splits
           dest: urljoin_raises)

lemma walk_string_raises: "walk_string E base src hint v k = Inl e \<Longrightarrow> e = ValueError"
  by (auto simp: walk_string_def bind_ok_Inl_iff split: if_splits option.splits
           dest: normalize_candidate_raises infer_raises is_placeholder_raises
                 build_candidates_raises)

lemma walk_raises:
  "walk E base src hint v k = Inl e \<Longrightarrow> e = ValueError"
  "walk_items E base src hint items = Inl e \<Longrightarrow> e = ValueError"
  "walk_list E base src hint vs k = Inl e \<Longrightarrow> e = ValueError"
  by (induction E base src hint v k and E base src hint items and E base src hint vs k
        rule: walk_walk_items_walk_list.induct)
     (auto simp: bind_ok_Inl_iff dest: walk_string_raises)

lemma extract_candidates_from_object_raises:
  "extract_candidates_from_object E payload base src hint = Inl e \<Longrightarrow> e = ValueError"
  by (auto simp: extract_candidates_from_object_def bind_ok_Inl_iff dest: walk_raises)

lemma api_images_raises: "api_images E base items = Inl e \<Longrightarrow> e = ValueError"
  by (induction E base items rule: api_images.induct)
     (auto simp: bind_ok_Inl_iff split: json.splits option.splits if_splits
           dest: normalize_candidate_raises is_placeholder_raises build_candidates_raises)

lemma pin_data_candidates_raises: "pin_data_candidates E base pd = Inl e \<Longrightarrow> e = ValueError"
  by (auto simp: pin_data_candidates_def bind_ok_Inl_iff split: json.splits if_splits
           dest: api_images_raises extract_candidates_from_object_raises)

lemma fetch_pin_api_candidates_raises:
  "fetch_pin_api_candidates E pin_id reply = Inl e \<Longrightarrow> library_error e"
  by (auto simp: fetch_pin_api_candidates_def library_error_def
           split: http_reply.splits if_splits option.splits json.splits list.splits
           dest: pin_data_candidates_raises)

lemma resolve_pin_id_via_oembed_raises:
  "resolve_pin_id_via_oembed reply = Inl e \<Longrightarrow> library_error e"
  by (auto simp: resolve_pin_id_via_oembed_def library_error_def
           split: http_reply.splits if_splits option.splits json.splits)

lemma oembed_keys_raises: "oembed_keys E page_url obj keys = Inl e \<Longrightarrow> e = ValueError"
  by (induction keys)
     (auto simp: bind_ok_Inl_iff split: json.splits option.splits if_splits
           dest: normalize_candidate_raises infer_raises is_placeholder_raises
                 build_candidates_raises)

lemma fetch_oembed_media_candidates_raises:
  "fetch_oembed_media_candidates E page_url reply = Inl e \<Longrightarrow> library_error e"
  by (auto simp: fetch_oembed_media_candidates_def library_error_def bind_ok_Inl_iff
           simp del: oembed_keys.simps
           split: http_reply.splits if_splits option.splits json.splits
           dest: oembed_keys_raises)

lemma ldjson_blocks_raises: "ldjson_blocks E base blocks = Inl e \<Longrightarrow> e = ValueError"
  by (induction blocks)
     (auto simp: bind_ok_Inl_iff Let_def split: option.splits if_splits
           dest: extract_candidates_from_object_raises)

lemma meta_matches_raises: "meta_matches E base ms = Inl e \<Longrightarrow> e = ValueError"
  by (induction ms)
     (auto simp: bind_ok_Inl_iff split: option.splits if_splits
           dest: normalize_candidate_raises is_placeholder_raises build_candidates_raises)

lemma hosted_matches_raises: "hosted_matches E base ms = Inl e \<Longrightarrow> e = ValueError"
  by (induction ms)
     (auto simp: bind_ok_Inl_iff split: option.splits if_splits
           dest: normalize_candidate_raises infer_raises is_placeholder_raises
                 build_candidates_raises)

lemma extract_html_candidates_raises:
  "extract_html_candidates E html_text base = Inl e \<Longrightarrow> e = ValueError"
  by (auto simp: extract_html_candidates_def extract_ldjson_candidates_def bind_ok_Inl_iff Let_def
           split: if_splits
           dest: meta_matches_raises ldjson_blocks_raises hosted_matches_raises)

lemma preferred_items_raises: "preferred_items bh items = Inl e \<Longrightarrow> e = ValueError"
  by (induction items)
     (auto simp: bind_ok_Inl_iff split: if_splits dest: urlparse_raises)

lemma api_strategy_raises:
  "api_strategy E net normalized final_url body = Inl e \<Longrightarrow> library_error e"
  by (auto simp: api_strategy_def bind_ok_Inl_iff split: option.splits
           dest: resolve_pin_id_via_oembed_raises fetch_pin_api_candidates_raises)

lemma html_strategy_raises:
  "html_strategy E net final_url body = Inl e \<Longrightarrow> library_error e"
  by (auto simp: html_strategy_def bind_ok_Inl_iff Let_def library_error_def
           dest: extract_html_candidates_raises fetch_oembed_media_candidates_raises
                 preferred_items_raises)

section \<open>The outcomes of the cascade\<close>

lemma score_variants_length:
  "score_variants bh vs src h = Inr cs \<Longrightarrow> length cs = length vs"
  by (induction vs arbitrary: cs) (auto simp: bind_ok_Inr_iff)

lemma pinimg_variants_nonempty: "pinimg_variants bh url = Inr vs \<Longrightarrow> vs \<noteq> []"
  by (auto simp: pinimg_variants_def bind_ok_Inr_iff dedupe_url_list_def Let_def
           split: if_splits list.splits)

lemma build_candidates_nonempty:
  "build_candidates bh url t src h = Inr cs \<Longrightarrow> cs \<noteq> []"
  by (auto simp: build_candidates_def bind_ok_Inr_iff split: if_splits
           dest!: pinimg_variants_nonempty score_variants_length)

lemma fast_path_None_iff:
  "fast_path bh url = Inr None \<longleftrightarrow>
     (\<exists>parsed inferred. urlparse bh url = Inr parsed
        \<and> infer_media_type_from_url bh url = Inr inferred
        \<and> (is_pinimg_host (netloc parsed) \<longrightarrow> inferred = None))"
  by (auto simp: fast_path_def bind_ok_Inr_iff)

lemma fast_path_Some_iff:
  "fast_path bh url = Inr (Some t) \<longleftrightarrow>
     (\<exists>parsed. urlparse bh url = Inr parsed
        \<and> infer_media_type_from_url bh url = Inr (Some t)
        \<and> is_pinimg_host (netloc parsed))"
  by (auto simp: fast_path_def bind_ok_Inr_iff)

lemma fast_path_Inl_iff:
  "fast_path bh url = Inl e \<longleftrightarrow>
     (urlparse bh url = Inl e
      \<or> (\<exists>parsed. urlparse bh url = Inr parsed \<and> infer_media_type_from_url bh url = Inl e))"
  by (auto simp: fast_path_def bind_ok_Inl_iff)

lemma infer_Inl_of_urlparse:
  "urlparse bh url = Inl e \<Longrightarrow> infer_media_type_from_url bh url = Inl e"
  by (simp add: infer_media_type_from_url_def)

lemma after_page_eq:
  "after_page E net normalized final_url body =
     bind_ok (infer_media_type_from_url (bracketed_host_ok E) final_url) (\<lambda>final_media_type.
     bind_ok (urlparse (bracketed_host_ok E) final_url) (\<lambda>final_parsed.
       case (if is_pinimg_host (netloc final_parsed) then final_media_type else None) of
         Some mtype \<Rightarrow>
           bind_ok (build_candidates (bracketed_host_ok E) final_url mtype ''redirect'' ''orig'')
             (\<lambda>candidates. Inr (sort_and_dedupe candidates))
       | None \<Rightarrow>
           bind_ok (api_strategy E net normalized final_url body) (\<lambda>api_candidates.
             if api_candidates \<noteq> [] then Inr (sort_and_dedupe api_candidates)
             else
               bind_ok (html_strategy E net final_url body) (\<lambda>deduped.
                 if deduped = []
                 then Inl (ResolutionError
                   ''Could not detect image or video media on this Pinterest page.'')
                 else Inr deduped))))"
proof (cases "urlparse (bracketed_host_ok E) final_url")
  case (Inl e)
  then show ?thesis
    by (simp add: after_page_def fast_path_def infer_Inl_of_urlparse)
next
  case (Inr p)
  then show ?thesis
    by (cases "infer_media_type_from_url (bracketed_host_ok E) final_url")
       (simp_all add: after_page_def fast_path_def)
qed

lemma resolve_flat:
  "resolve_media_candidates E net pin_url =
     (if \<not> is_valid_http_url (bracketed_host_ok E) (normalize_url pin_url)
      then Inl (ResolutionError ''Invalid URL format.'')
      else
        bind_ok (fast_path (bracketed_host_ok E) (normalize_url pin_url)) (\<lambda>fast.
          case fast of
            Some mtype \<Rightarrow>
              bind_ok (build_candidates (bracketed_host_ok E) (normalize_url pin_url) mtype
                         ''direct'' ''orig'')
                (\<lambda>candidates. Inr (sort_and_dedupe candidates))
          | None \<Rightarrow>
              (case page_reply net of
                 Failed \<Rightarrow> Inl RequestException
               | Reply final_url st body js \<Rightarrow>
                   if http_error st then Inl RequestException
                   else after_page E net (normalize_url pin_url) final_url body)))"
proof (cases "urlparse (bracketed_host_ok E) (normalize_url pin_url)")
  case (Inl e)
  then show ?thesis
    by (simp add: resolve_media_candidates_def fast_path_def Let_def)
next
  case p: (Inr p)
  show ?thesis
  proof (cases "infer_media_type_from_url (bracketed_host_ok E) (normalize_url pin_url)")
    case (Inl e)
    then show ?thesis
      using p by (simp add: resolve_media_candidates_def fast_path_def Let_def)
  next
    case t: (Inr t)
    show ?thesis
    proof (cases "page_reply net")
      case Failed
      then show ?thesis
        using p t
        by (cases t; cases "is_pinimg_host (netloc p)")
           (simp_all add: resolve_media_candidates_def fast_path_def Let_def)
    next
      case (Reply final_url st body js)
      then show ?thesis
        using p t
        by (cases t; cases "is_pinimg_host (netloc p)")
           (simp_all add: resolve_media_candidates_def fast_path_def [of _ "normalize_url pin_url"]
                      after_page_eq Let_def)
    qed
  qed
qed

lemma after_page_nonempty:
  "after_page E net normalized final_url body = Inr out \<Longrightarrow> out \<noteq> []"
  by (auto simp: after_page_def bind_ok_Inr_iff sort_and_dedupe_Nil_iff
           split: option.splits if_splits dest: build_candidates_nonempty)

lemma resolve_nonempty:
  "resolve_media_candidates E net pin_url = Inr out \<Longrightarrow> out \<noteq> []"
  by (auto simp: resolve_flat bind_ok_Inr_iff sort_and_dedupe_Nil_iff
           split: option.splits if_splits http_reply.splits
           dest: build_candidates_nonempty after_page_nonempty)

lemma fast_path_raises: "fast_path bh url = Inl e \<Longrightarrow> e = ValueError"
  by (auto simp: fast_path_Inl_iff dest: urlparse_raises infer_raises)

lemma after_page_ResolutionError_iff:
  "after_page E net normalized final_url body = Inl (ResolutionError msg) \<longleftrightarrow>
     fast_path (bracketed_host_ok E) final_url = Inr None
     \<and> api_strategy E net normalized final_url body = Inr []
     \<and> html_strategy E net final_url body = Inr []
     \<and> msg = ''Could not detect image or video media on this Pinterest page.''"
  by (auto simp: after_page_def bind_ok_Inl_iff library_error_def
           split: option.splits if_splits
           dest: fast_path_raises build_candidates_raises api_strategy_raises
                 html_strategy_raises)

lemma after_page_not_RequestException:
  "after_page E net normalized final_url body \<noteq> Inl RequestException"
  by (auto simp: after_page_def bind_ok_Inl_iff library_error_def
           split: option.splits if_splits
           dest: fast_path_raises build_candidates_raises api_strategy_raises
                 html_strategy_raises)

lemma resolve_direct:
  "is_valid_http_url (bracketed_host_ok E) (normalize_url pin_url) \<Longrightarrow>
   fast_path (bracketed_host_ok E) (normalize_url pin_url) = Inr (Some mtype) \<Longrightarrow>
   resolve_media_candidates E net pin_url
     = bind_ok (build_candidates (bracketed_host_ok E) (normalize_url pin_url) mtype
                  ''direct'' ''orig'')
         (\<lambda>candidates. Inr (sort_and_dedupe candidates))"
  by (simp add: resolve_flat)

lemma resolve_fetched:
  "is_valid_http_url (bracketed_host_ok E) (normalize_url pin_url) \<Longrightarrow>
   fast_path (bracketed_host_ok E) (normalize_url pin_url) = Inr None \<Longrightarrow>
   resolve_media_candidates E net pin_url
     = (case page_reply net of
          Failed \<Rightarrow> Inl RequestException
        | Reply final_url st body js \<Rightarrow>
            if http_error st then Inl RequestException
            else after_page E net (normalize_url pin_url) final_url body)"
  by (simp add: resolve_flat)

lemma resolve_fast_path_raises:
  "is_valid_http_url (bracketed_host_ok E) (normalize_url pin_url) \<Longrightarrow>
   fast_path (bracketed_host_ok E) (normalize_url pin_url) = Inl e \<Longrightarrow>
   resolve_media_candidates E net pin_url = Inl e"
  by (simp add: resolve_flat)

lemma resolve_ResolutionError_iff:
  "resolve_media_candidates E net pin_url = Inl (ResolutionError msg) \<longleftrightarrow>
     (\<not> is_valid_http_url (bracketed_host_ok E) (normalize_url pin_url)
      \<and> msg = ''Invalid URL format.'')
     \<or> (is_valid_http_url (bracketed_host_ok E) (normalize_url pin_url)
        \<and> all_strategies_empty E net pin_url
        \<and> msg = ''Could not detect image or video media on this Pinterest page.'')"
proof (cases "is_valid_http_url (bracketed_host_ok E) (normalize_url pin_url)")
  case False
  then show ?thesis by (auto simp: resolve_flat)
next
  case valid: True
  show ?thesis
  proof (cases "fast_path (bracketed_host_ok E) (normalize_url pin_url)")
    case (Inl e)
    then have "e = ValueError" by (rule fast_path_raises)
    then show ?thesis
      using valid Inl by (simp add: resolve_fast_path_raises all_strategies_empty_def)
  next
    case (Inr fast)
    show ?thesis
    proof (cases fast)
      case None
      then show ?thesis
        using valid Inr
        by (auto simp: resolve_fetched all_strategies_empty_def after_page_ResolutionError_iff
                 split: http_reply.splits)
    next
      case (Some mtype)
      then show ?thesis
        using valid Inr
        by (auto simp: resolve_direct all_strategies_empty_def bind_ok_Inl_iff
                 dest: build_candidates_raises)
    qed
  qed
qed

lemma resolve_RequestException_iff:
  "resolve_media_candidates E net pin_url = Inl RequestException \<longleftrightarrow>
     is_valid_http_url (bracketed_host_ok E) (normalize_url pin_url)
     \<and> fast_path (bracketed_host_ok E) (normalize_url pin_url) = Inr None
     \<and> (case page_reply net of Failed \<Rightarrow> True | Reply final_url st body js \<Rightarrow> http_error st)"
proof (cases "is_valid_http_url (bracketed_host_ok E) (normalize_url pin_url)")
  case False
  then show ?thesis by (auto simp: resolve_flat)
next
  case valid: True
  show ?thesis
  proof (cases "fast_path (bracketed_host_ok E) (normalize_url pin_url)")
    case (Inl e)
    then have "e = ValueError" by (rule fast_path_raises)
    then show ?thesis
      using valid Inl by (simp add: resolve_fast_path_raises)
  next
    case (Inr fast)
    show ?thesis
    proof (cases fast)
      case None
      then show ?thesis
        using valid Inr
        by (auto simp: resolve_fetched after_page_not_RequestException
                 split: http_reply.splits)
    next
      case (Some mtype)
      then show ?thesis
        using valid Inr
        by (auto simp: resolve_direct bind_ok_Inl_iff dest: build_candidates_raises)
    qed
  qed
qed

section \<open>The pagination loop and the result of the collector\<close>

lemma paginate_sent_distinct:
  "seen = set posted \<Longrightarrow> distinct posted \<Longrightarrow>
   distinct (sent (paginate replies bookmark max_pins collected seen posted))"
proof (induction replies bookmark max_pins collected seen posted rule: paginate.induct)
  case (1 replies bookmark max_pins collected seen_bookmarks posted)
  show ?case
  proof (cases "can_continue_pagination bookmark max_pins (length collected)")
    case False
    then show ?thesis using "1.prems" by (subst paginate.simps) simp
  next
    case cont: True
    then obtain b where b: "bookmark = JStr b"
      by (auto simp: can_continue_pagination_def split: json.splits if_splits)
    show ?thesis
    proof (cases "b \<in> seen_bookmarks")
      case True
      then show ?thesis using "1.prems" cont b by (subst paginate.simps) simp
    next
      case fresh: False
      show ?thesis
      proof (cases replies)
        case Nil
        then show ?thesis using "1.prems" cont b fresh by (subst paginate.simps) simp
      next
        case (Cons reply later)
        show ?thesis
        proof (cases "fetch_user_pins_page reply")
          case (Inl e)
          then show ?thesis
            using "1.prems" cont b fresh Cons by (subst paginate.simps) simp
        next
          case (Inr page)
          obtain page_data next_bookmark where page: "page = (page_data, next_bookmark)"
            by (cases page)
          show ?thesis
          proof (cases "page_data = []")
            case True
            then show ?thesis
              using "1.prems" cont b fresh Cons Inr page by (subst paginate.simps) simp
          next
            case False
            have "distinct (sent (paginate later (JStr next_bookmark) max_pins
                     (collected @ extract_pin_urls_from_rows page_data)
                     (insert b seen_bookmarks) (posted @ [b])))"
              by (rule "1.IH" [where ?x5.0 = b])
                 (use cont b fresh Cons Inr page False "1.prems" in simp_all)
            then show ?thesis
              using cont b fresh Cons Inr page False by (subst paginate.simps) simp
          qed
        qed
      qed
    qed
  qed
qed


lemma paginate_halts:
  "\<not> can_continue_pagination bookmark max_pins (length collected) \<Longrightarrow>
   paginate replies bookmark max_pins collected seen posted
     = \<lparr>sent = posted, outcome = Some (Inr collected)\<rparr>"
  by (subst paginate.simps) simp

lemma paginate_seen:
  "b \<in> seen \<Longrightarrow>
   paginate replies (JStr b) max_pins collected seen posted
     = \<lparr>sent = posted, outcome = Some (Inr collected)\<rparr>"
  by (subst paginate.simps) simp

lemma paginate_repeated_cursor:
  assumes "can_continue_pagination (JStr b) max_pins (length collected)"
    and "b \<notin> seen"
    and "fetch_user_pins_page reply = Inr (page_data, b)"
  shows "sent (paginate (reply # later) (JStr b) max_pins collected seen posted) = posted @ [b]"
proof (cases "page_data = []")
  case True
  then show ?thesis using assms by (subst paginate.simps) simp
next
  case False
  have "paginate later (JStr b) max_pins (collected @ extract_pin_urls_from_rows page_data)
          (insert b seen) (posted @ [b])
        = \<lparr>sent = posted @ [b],
           outcome = Some (Inr (collected @ extract_pin_urls_from_rows page_data))\<rparr>"
    by (rule paginate_seen) simp
  then show ?thesis using assms False by (subst paginate.simps) simp
qed

lemma can_continue_pagination_iff:
  "can_continue_pagination bookmark max_pins n \<longleftrightarrow>
     \<not> (max_pins > 0 \<and> int n \<ge> max_pins)
     \<and> (\<exists>b. bookmark = JStr b \<and> b \<noteq> [] \<and> b \<noteq> ''-end-'')"
  by (auto simp: can_continue_pagination_def split: json.splits)

lemma collect_from_page_sent:
  "distinct (fst (collect_from_page E body replies canonical username max_pins))"
  by (auto simp: collect_from_page_def Let_def paginate_sent_distinct
           split: option.splits if_splits)

lemma collect_sent_distinct:
  "distinct (fst (collect_profile_pin_urls E page replies url max_pins))"
  by (auto simp: collect_profile_pin_urls_def Let_def collect_from_page_sent
           split: sum.splits option.splits http_reply.splits if_splits)

lemma dedupe_urls_loop_distinct:
  "dedupe_urls_loop bh urls seen deduped = Inr out \<Longrightarrow> seen = set deduped \<Longrightarrow>
   distinct deduped \<Longrightarrow> distinct out"
proof (induction urls arbitrary: seen deduped)
  case Nil
  then show ?case by simp
next
  case (Cons url urls)
  from Cons.prems(1) obtain parsed where p: "urlparse bh url = Inr parsed"
    by (auto simp: bind_ok_Inr_iff)
  let ?n = "geturl (parsed\<lparr>query := [], fragment := []\<rparr>)"
  show ?case
  proof (cases "?n \<in> seen")
    case True
    then have "dedupe_urls_loop bh urls seen deduped = Inr out"
      using Cons.prems(1) p by (simp add: Let_def)
    then show ?thesis using Cons.IH Cons.prems by blast
  next
    case False
    then have "dedupe_urls_loop bh urls (insert ?n seen) (deduped @ [?n]) = Inr out"
      using Cons.prems(1) p by (simp add: Let_def)
    moreover have "insert ?n seen = set (deduped @ [?n])" using Cons.prems(2) by simp
    moreover have "distinct (deduped @ [?n])" using Cons.prems False by simp
    ultimately show ?thesis using Cons.IH by blast
  qed
qed

lemma dedupe_urls_distinct: "dedupe_urls bh urls = Inr out \<Longrightarrow> distinct out"
  using dedupe_urls_loop_distinct [of bh urls "{}" "[]" out] by (simp add: dedupe_urls_def)

lemma truncate_to_facts:
  "distinct xs \<Longrightarrow> distinct (truncate_to max_pins xs)"
  "0 < max_pins \<Longrightarrow> int (length (truncate_to max_pins xs)) \<le> max_pins"
  "length (truncate_to max_pins xs) \<le> length xs"
  by (auto simp: truncate_to_def)

lemma fallback_result_counted:
  "fallback_result bh canonical username body max_pins = Inr r \<Longrightarrow> counted max_pins r"
  by (auto simp: fallback_result_def Let_def bind_ok_Inr_iff counted_def truncate_to_facts
           split: if_splits dest: dedupe_urls_distinct)

lemma collected_result_counted:
  "collected_result bh canonical username collected max_pins = Inr r \<Longrightarrow> counted max_pins r"
  by (auto simp: collected_result_def Let_def bind_ok_Inr_iff counted_def truncate_to_facts
           split: if_splits dest: dedupe_urls_distinct)

lemma collect_from_page_counted:
  "collect_from_page E body replies canonical username max_pins = (posted, Some (Inr r))
   \<Longrightarrow> counted max_pins r"
  by (auto simp: collect_from_page_def Let_def
           split: option.splits if_splits sum.splits
           dest: fallback_result_counted collected_result_counted)

lemma collect_counted:
  "collect_profile_pin_urls E page replies url max_pins = (posted, Some (Inr r))
   \<Longrightarrow> counted max_pins r"
  by (auto simp: collect_profile_pin_urls_def Let_def
           split: sum.splits option.splits http_reply.splits if_splits
           dest: collect_from_page_counted)

section \<open>Concrete runs\<close>

lemma pin_page_url:
  "normalize_url ''https://www.pinterest.com/pin/1/'' = ''https://www.pinterest.com/pin/1/''"
  "is_valid_http_url bh ''https://www.pinterest.com/pin/1/''"
  "fast_path bh ''https://www.pinterest.com/pin/1/'' = Inr None"
  by code_simp+

lemma pin_page_api:
  "api_strategy plain_env empty_page ''https://www.pinterest.com/pin/1/''
     ''https://www.pinterest.com/pin/1/'' [] = Inr []"
  by code_simp

lemma pin_page_html:
  "html_strategy plain_env empty_page ''https://www.pinterest.com/pin/1/'' [] = Inr []"
  by code_simp

lemma pin_page_exhausted:
  "all_strategies_empty plain_env empty_page ''https://www.pinterest.com/pin/1/''"
proof -
  have "page_reply empty_page = Reply ''https://www.pinterest.com/pin/1/'' 200 [] None"
    by (simp add: empty_page_def no_replies_def)
  moreover have "bracketed_host_ok plain_env = any_bracketed_host"
    by (simp add: plain_env_def)
  ultimately show ?thesis
    by (simp add: all_strategies_empty_def pin_page_url pin_page_api pin_page_html http_error_def)
qed

lemma ftp_url_invalid:
  "\<not> is_valid_http_url bh (normalize_url ''ftp://example.com/a.jpg'')"
  by code_simp

lemma originals_url:
  "normalize_url ''i.pinimg.com/originals/ab/cd.jpg'' = ''https://i.pinimg.com/originals/ab/cd.jpg''"
  "is_valid_http_url bh ''https://i.pinimg.com/originals/ab/cd.jpg''"
  "fast_path bh ''https://i.pinimg.com/originals/ab/cd.jpg'' = Inr (Some ImageMedia)"
  "build_candidates bh ''https://i.pinimg.com/originals/ab/cd.jpg'' ImageMedia ''direct'' ''orig''
     = Inr [\<lparr>cand_url = ''https://i.pinimg.com/originals/ab/cd.jpg'',
              cand_media_type = ImageMedia, cand_quality_score = 10300,
              cand_source = ''direct''\<rparr>]"
  "sort_and_dedupe [\<lparr>cand_url = ''https://i.pinimg.com/originals/ab/cd.jpg'',
              cand_media_type = ImageMedia, cand_quality_score = 10300,
              cand_source = ''direct''\<rparr>]
     = [\<lparr>cand_url = ''https://i.pinimg.com/originals/ab/cd.jpg'',
              cand_media_type = ImageMedia, cand_quality_score = 10300,
              cand_source = ''direct''\<rparr>]"
  by code_simp+

lemma resolve_originals:
  "resolve_media_candidates E net ''i.pinimg.com/originals/ab/cd.jpg''
     = Inr [\<lparr>cand_url = ''https://i.pinimg.com/originals/ab/cd.jpg'',
              cand_media_type = ImageMedia, cand_quality_score = 10300,
              cand_source = ''direct''\<rparr>]"
  by (simp add: resolve_flat originals_url)

lemma alice_url:
  "normalize_url ''pinterest.com/alice/'' = ''https://pinterest.com/alice/''"
  "is_valid_http_url bh ''https://pinterest.com/alice/''"
  "extract_profile_username bh ''https://pinterest.com/alice/'' = Inr (Some ''alice'')"
  by code_simp+

lemma alice_props:
  "parse_initial_props profile_env profile_body
     = Some [(''initialReduxState'', JDict [(''resources'', JDict [(''UserPinsResource'',
        JDict [(''k'', JDict [(''data'', JList [JDict [(''id'', JStr ''11'')],
                                                JDict [(''id'', JStr ''22'')]]),
                              (''nextBookmark'', JStr ''B1'')])])])])]"
  by code_simp

lemma alice_entry:
  "extract_user_pins_entry
     [(''initialReduxState'', JDict [(''resources'', JDict [(''UserPinsResource'',
        JDict [(''k'', JDict [(''data'', JList [JDict [(''id'', JStr ''11'')],
                                                JDict [(''id'', JStr ''22'')]]),
                              (''nextBookmark'', JStr ''B1'')])])])])]
   = Some [(''data'', JList [JDict [(''id'', JStr ''11'')], JDict [(''id'', JStr ''22'')]]),
           (''nextBookmark'', JStr ''B1'')]"
  by code_simp

lemma alice_initial:
  "dict_get [(''data'', JList [JDict [(''id'', JStr ''11'')], JDict [(''id'', JStr ''22'')]]),
             (''nextBookmark'', JStr ''B1'')] ''nextBookmark'' = JStr ''B1''"
  "extract_pin_urls_from_resource_data
     (dict_get [(''data'', JList [JDict [(''id'', JStr ''11'')], JDict [(''id'', JStr ''22'')]]),
                (''nextBookmark'', JStr ''B1'')] ''data'')
   = [''https://www.pinterest.com/pin/11/'', ''https://www.pinterest.com/pin/22/'']"
  by code_simp+

lemma alice_fetch:
  "fetch_user_pins_page same_cursor_reply = Inr ([JDict [(''id'', JStr ''33'')]], ''B1'')"
  by code_simp

lemma alice_rows:
  "extract_pin_urls_from_rows [JDict [(''id'', JStr ''33'')]] = [''https://www.pinterest.com/pin/33/'']"
  by code_simp

lemma alice_paginate_all:
  "paginate [same_cursor_reply, same_cursor_reply] (JStr ''B1'') 0
     [''https://www.pinterest.com/pin/11/'', ''https://www.pinterest.com/pin/22/''] {} []
   = \<lparr>sent = [''B1''],
      outcome = Some (Inr [''https://www.pinterest.com/pin/11/'',
                           ''https://www.pinterest.com/pin/22/'',
                           ''https://www.pinterest.com/pin/33/''])\<rparr>"
proof -
  have c: "can_continue_pagination (JStr ''B1'') 0 n" for n
    by (simp add: can_continue_pagination_def)
  show ?thesis
    apply (subst paginate.simps)
    apply (simp add: c alice_fetch alice_rows del: extract_pin_urls_from_rows.simps)
    apply (subst paginate.simps)
    apply (simp add: c)
    done
qed

lemma alice_paginate_one:
  "paginate replies (JStr ''B1'') 1
     [''https://www.pinterest.com/pin/11/'', ''https://www.pinterest.com/pin/22/''] {} []
   = \<lparr>sent = [],
      outcome = Some (Inr [''https://www.pinterest.com/pin/11/'',
                           ''https://www.pinterest.com/pin/22/''])\<rparr>"
  by (rule paginate_halts) (simp add: can_continue_pagination_def)

lemma alice_dedupe3:
  "dedupe_urls bh [''https://www.pinterest.com/pin/11/'', ''https://www.pinterest.com/pin/22/'',
                   ''https://www.pinterest.com/pin/33/'']
   = Inr [''https://www.pinterest.com/pin/11/'', ''https://www.pinterest.com/pin/22/'',
          ''https://www.pinterest.com/pin/33/'']"
  by code_simp

lemma alice_dedupe2:
  "dedupe_urls bh [''https://www.pinterest.com/pin/11/'', ''https://www.pinterest.com/pin/22/'']
   = Inr [''https://www.pinterest.com/pin/11/'', ''https://www.pinterest.com/pin/22/'']"
  by code_simp

lemma alice_collect_all:
  "collect_profile_pin_urls profile_env profile_page [same_cursor_reply, same_cursor_reply]
     ''pinterest.com/alice/'' 0
   = ([''B1''],
      Some (Inr \<lparr>profile_url = ''https://www.pinterest.com/alice/'', profile_username = ''alice'',
                  pin_urls = [''https://www.pinterest.com/pin/11/'',
                              ''https://www.pinterest.com/pin/22/'',
                              ''https://www.pinterest.com/pin/33/''],
                  discovered_count = 3\<rparr>))"
  by (simp add: collect_profile_pin_urls_def collect_from_page_def collected_result_def
        profile_page_def alice_url http_error_def alice_props alice_entry alice_initial
        alice_paginate_all alice_dedupe3 truncate_to_def canonical_profile_url_def)

lemma alice_collect_one:
  "collect_profile_pin_urls profile_env profile_page replies ''pinterest.com/alice/'' 1
   = ([],
      Some (Inr \<lparr>profile_url = ''https://www.pinterest.com/alice/'', profile_username = ''alice'',
                  pin_urls = [''https://www.pinterest.com/pin/11/''],
                  discovered_count = 1\<rparr>))"
  by (simp add: collect_profile_pin_urls_def collect_from_page_def collected_result_def
        profile_page_def alice_url http_error_def alice_props alice_entry alice_initial
        alice_paginate_one alice_dedupe2 truncate_to_def canonical_profile_url_def)

section \<open>Normalising a URL that is already normal\<close>































section \<open>The short-link host with a space or a port\<close>

lemma spaced_short_link:
  "normalize_url ''https:// pin.it/abc'' = ''https:// pin.it/abc''"
  "is_valid_http_url bh ''https:// pin.it/abc''"
  "urlparse bh ''https:// pin.it/abc''
   = Inr \<lparr>scheme = ''https'', netloc = '' pin.it'', path = ''/abc'', params = [],
          query = [], fragment = []\<rparr>"
  "strip (lower '' pin.it'') = ''pin.it''"
  "is_pinterest_host (lower '' pin.it'')"
  "is_pin_url bh ''https:// pin.it/abc'' = Inr False"
  "extract_profile_username bh ''https:// pin.it/abc'' = Inr (Some ''abc'')"
  "is_profile_url bh ''https:// pin.it/abc'' = Inr True"
  by code_simp+

lemma ported_short_link:
  "is_valid_http_url bh ''https://pin.it:443/abc''"
  "urlparse bh ''https://pin.it:443/abc''
   = Inr \<lparr>scheme = ''https'', netloc = ''pin.it:443'', path = ''/abc'', params = [],
          query = [], fragment = []\<rparr>"
  "is_pin_url bh ''https://pin.it:443/abc'' = Inr False"
  "extract_profile_username bh ''https://pin.it:443/abc'' = Inr None"
  "is_profile_url bh ''https://pin.it:443/abc'' = Inr False"
  by code_simp+

lemma pin_and_profile_never_both:
  "\<not> (is_pin_url bh url = Inr True \<and> is_profile_url bh url = Inr True)"
  by (auto simp: is_profile_url_def split: sum.splits if_splits)

lemma exact_short_link_netloc:
  "urlparse bh url = Inr parsed \<Longrightarrow> lower (netloc parsed) \<in> PIN_SHORT_HOSTS \<Longrightarrow>
   is_pin_url bh url = Inr True \<and> extract_profile_username bh url = Inr None
   \<and> is_profile_url bh url = Inr False"
  by (auto simp: is_profile_url_def is_pin_url_def extract_profile_username_def Let_def
           split: sum.splits if_splits)

section \<open>The URL classifier\<close>

text \<open>
  Claim C9. \<open>extract_profile_username\<close> never returns a reserved keyword or a handle that
  starts with an underscore, for any URL; and whenever the first path segment of the
  URL is reserved or starts with an underscore, it returns no handle.
\<close>

theorem extract_profile_username_never_reserved:
  "(\<forall>username. extract_profile_username bh url = Inr (Some username) \<longrightarrow>
      username \<notin> RESERVED_PROFILE_SEGMENTS \<and> \<not> prefix ''_'' username)
   \<and> (\<forall>parsed segment rest.
         urlparse bh url = Inr parsed \<and> path_segments (path parsed) = segment # rest
         \<and> (segment \<in> RESERVED_PROFILE_SEGMENTS \<or> prefix ''_'' segment)
         \<longrightarrow> extract_profile_username bh url = Inr None)"
proof (intro conjI allI impI)
  fix username
  assume "extract_profile_username bh url = Inr (Some username)"
  then show "username \<notin> RESERVED_PROFILE_SEGMENTS"
    by (auto simp: extract_profile_username_def Let_def split: sum.splits if_splits list.splits)
next
  fix username
  assume "extract_profile_username bh url = Inr (Some username)"
  then show "\<not> prefix ''_'' username"
    by (auto simp: extract_profile_username_def Let_def split: sum.splits if_splits list.splits)
next
  fix parsed segment rest
  assume h: "urlparse bh url = Inr parsed \<and> path_segments (path parsed) = segment # rest
         \<and> (segment \<in> RESERVED_PROFILE_SEGMENTS \<or> prefix ''_'' segment)"
  then have "lower (strip segment) \<in> RESERVED_PROFILE_SEGMENTS
             \<or> prefix ''_'' (lower (strip segment))"
    using strip_lower_reserved strip_keeps_underscore by blast
  with h show "extract_profile_username bh url = Inr None"
    by (auto simp: extract_profile_username_def Let_def)
qed

theorem extract_profile_username_never_reserved_witness:
  "extract_profile_username any_bracketed_host ''https://www.pinterest.com/Alice/boards''
     = Inr (Some ''alice'')
   \<and> ''alice'' \<notin> RESERVED_PROFILE_SEGMENTS \<and> \<not> prefix ''_'' ''alice''
   \<and> extract_profile_username any_bracketed_host ''https://www.pinterest.com/_saved/'' = Inr None"
proof -
  have p: "urlparse any_bracketed_host ''https://www.pinterest.com/_saved/''
             = Inr \<lparr>scheme = ''https'', netloc = ''www.pinterest.com'', path = ''/_saved/'',
                    params = [], query = [], fragment = []\<rparr>"
    by code_simp
  have s: "path_segments ''/_saved/'' = [''_saved'']"
    by code_simp
  have a: "extract_profile_username any_bracketed_host ''https://www.pinterest.com/Alice/boards''
             = Inr (Some ''alice'')"
    by code_simp
  from extract_profile_username_never_reserved
         [of any_bracketed_host "''https://www.pinterest.com/Alice/boards''"] a
  have 1: "''alice'' \<notin> RESERVED_PROFILE_SEGMENTS \<and> \<not> prefix ''_'' ''alice''"
    by blast
  from extract_profile_username_never_reserved
         [of any_bracketed_host "''https://www.pinterest.com/_saved/''"] p s
  have 2: "extract_profile_username any_bracketed_host ''https://www.pinterest.com/_saved/''
             = Inr None"
    by simp
  from a 1 2 show ?thesis by blast
qed

text \<open>
  Claim C10. No URL is classified both as a pin URL and as a profile URL, and a URL
  whose host is the short-link host is a pin URL and yields no handle. The first half
  holds (\<open>pin_and_profile_never_both\<close>); the second holds when the network location,
  in lower case, is exactly the short-link host (\<open>exact_short_link_netloc\<close>), and the
  code departs from it otherwise. \<open>is_pinterest_host\<close> strips the host before it looks
  it up in \<open>PIN_SHORT_HOSTS\<close>, while \<open>is_pin_url\<close> and \<open>extract_profile_username\<close> look
  up the network location as it is. So \<open>https:// pin.it/abc\<close>, which passes
  \<open>normalize_url\<close> and \<open>is_valid_http_url\<close> and whose host \<open>is_pinterest_host\<close> accepts
  as the short-link host, is not a pin URL, yields the handle \<open>abc\<close> and is a profile
  URL; and \<open>https://pin.it:443/abc\<close>, the short-link host with its default port, is
  not a pin URL.
\<close>

theorem short_link_host_misclassified:
  "normalize_url ''https:// pin.it/abc'' = ''https:// pin.it/abc''
   \<and> is_valid_http_url any_bracketed_host ''https:// pin.it/abc''
   \<and> urlparse any_bracketed_host ''https:// pin.it/abc''
       = Inr \<lparr>scheme = ''https'', netloc = '' pin.it'', path = ''/abc'', params = [],
              query = [], fragment = []\<rparr>
   \<and> strip (lower '' pin.it'') \<in> PIN_SHORT_HOSTS
   \<and> is_pinterest_host (lower '' pin.it'')
   \<and> is_pin_url any_bracketed_host ''https:// pin.it/abc'' = Inr False
   \<and> extract_profile_username any_bracketed_host ''https:// pin.it/abc'' = Inr (Some ''abc'')
   \<and> is_profile_url any_bracketed_host ''https:// pin.it/abc'' = Inr True
   \<and> is_valid_http_url any_bracketed_host ''https://pin.it:443/abc''
   \<and> urlparse any_bracketed_host ''https://pin.it:443/abc''
       = Inr \<lparr>scheme = ''https'', netloc = ''pin.it:443'', path = ''/abc'', params = [],
              query = [], fragment = []\<rparr>
   \<and> is_pin_url any_bracketed_host ''https://pin.it:443/abc'' = Inr False
   \<and> is_profile_url any_bracketed_host ''https://pin.it:443/abc'' = Inr False"
  by (simp add: spaced_short_link ported_short_link PIN_SHORT_HOSTS_def)

text \<open>
  Claim C1. The output of \<open>_sort_and_dedupe\<close> has scores that never increase and no two
  candidates with the same media type and URL; each candidate kept comes from the
  input and carries the greatest score among the input candidates of its key, and
  every key of the input is kept. Every list that \<open>resolve_media_candidates\<close> returns is
  ordered and free of duplicates in the same way.
\<close>

theorem sort_and_dedupe_sorted_unique_best:
  "sorted_wrt (\<lambda>a b. cand_quality_score a \<ge> cand_quality_score b) (sort_and_dedupe cs)
   \<and> distinct (map cand_key (sort_and_dedupe cs))
   \<and> (\<forall>c\<in>set (sort_and_dedupe cs).
          c \<in> set cs
          \<and> cand_quality_score c
              = Max (cand_quality_score ` {d \<in> set cs. cand_key d = cand_key c}))
   \<and> cand_key ` set (sort_and_dedupe cs) = cand_key ` set cs
   \<and> (\<forall>out. resolve_media_candidates E net pin_url = Inr out \<longrightarrow>
          sorted_wrt (\<lambda>a b. cand_quality_score a \<ge> cand_quality_score b) out
          \<and> distinct (map cand_key out))"
proof (intro conjI ballI allI impI)
  show "sorted_wrt (\<lambda>a b. cand_quality_score a \<ge> cand_quality_score b) (sort_and_dedupe cs)"
    using sort_and_dedupe_ranked [of cs] by (simp add: ranked_def)
  show "distinct (map cand_key (sort_and_dedupe cs))"
    using sort_and_dedupe_ranked [of cs] by (simp add: ranked_def)
  show "cand_key ` set (sort_and_dedupe cs) = cand_key ` set cs"
    using sort_and_dedupe_set [of cs] by simp
next
  fix c assume "c \<in> set (sort_and_dedupe cs)"
  then show "c \<in> set cs" using sort_and_dedupe_set [of cs] by blast
next
  fix c assume "c \<in> set (sort_and_dedupe cs)"
  then show "cand_quality_score c
               = Max (cand_quality_score ` {d \<in> set cs. cand_key d = cand_key c})"
    by (rule sort_and_dedupe_best)
next
  fix out assume "resolve_media_candidates E net pin_url = Inr out"
  then have "ranked out" by (rule resolve_media_candidates_ranked)
  then show "sorted_wrt (\<lambda>a b. cand_quality_score a \<ge> cand_quality_score b) out"
    and "distinct (map cand_key out)"
    by (simp_all add: ranked_def)
qed

theorem sort_and_dedupe_sorted_unique_best_witness:
  "sort_and_dedupe
     [\<lparr>cand_url = ''https://i.pinimg.com/a.jpg'', cand_media_type = ImageMedia,
        cand_quality_score = 1300, cand_source = ''meta''\<rparr>,
      \<lparr>cand_url = ''https://v1.pinimg.com/videos/a.mp4'', cand_media_type = VideoMedia,
        cand_quality_score = 20500, cand_source = ''ldjson''\<rparr>,
      \<lparr>cand_url = ''https://i.pinimg.com/a.jpg'', cand_media_type = ImageMedia,
        cand_quality_score = 10300, cand_source = ''ldjson''\<rparr>]
   = [\<lparr>cand_url = ''https://v1.pinimg.com/videos/a.mp4'', cand_media_type = VideoMedia,
        cand_quality_score = 20500, cand_source = ''ldjson''\<rparr>,
      \<lparr>cand_url = ''https://i.pinimg.com/a.jpg'', cand_media_type = ImageMedia,
        cand_quality_score = 10300, cand_source = ''ldjson''\<rparr>]
   \<and> (10300::int)
       = Max (cand_quality_score `
           {d \<in> set [\<lparr>cand_url = ''https://i.pinimg.com/a.jpg'', cand_media_type = ImageMedia,
                        cand_quality_score = 1300, cand_source = ''meta''\<rparr>,
                      \<lparr>cand_url = ''https://v1.pinimg.com/videos/a.mp4'',
                        cand_media_type = VideoMedia,
                        cand_quality_score = 20500, cand_source = ''ldjson''\<rparr>,
                      \<lparr>cand_url = ''https://i.pinimg.com/a.jpg'', cand_media_type = ImageMedia,
                        cand_quality_score = 10300, cand_source = ''ldjson''\<rparr>].
              cand_key d = (ImageMedia, ''https://i.pinimg.com/a.jpg'')})
   \<and> resolve_media_candidates plain_env no_replies ''i.pinimg.com/originals/ab/cd.jpg''
       = Inr [\<lparr>cand_url = ''https://i.pinimg.com/originals/ab/cd.jpg'',
                cand_media_type = ImageMedia, cand_quality_score = 10300,
                cand_source = ''direct''\<rparr>]
   \<and> distinct (map cand_key
         [\<lparr>cand_url = ''https://i.pinimg.com/originals/ab/cd.jpg'',
            cand_media_type = ImageMedia, cand_quality_score = 10300,
            cand_source = ''direct''\<rparr>])"
proof -
  let ?a = "\<lparr>cand_url = ''https://i.pinimg.com/a.jpg'', cand_media_type = ImageMedia,
             cand_quality_score = 1300, cand_source = ''meta''\<rparr>"
  let ?v = "\<lparr>cand_url = ''https://v1.pinimg.com/videos/a.mp4'', cand_media_type = VideoMedia,
             cand_quality_score = 20500, cand_source = ''ldjson''\<rparr>"
  let ?b = "\<lparr>cand_url = ''https://i.pinimg.com/a.jpg'', cand_media_type = ImageMedia,
             cand_quality_score = 10300, cand_source = ''ldjson''\<rparr>"
  let ?o = "\<lparr>cand_url = ''https://i.pinimg.com/originals/ab/cd.jpg'',
             cand_media_type = ImageMedia, cand_quality_score = 10300,
             cand_source = ''direct''\<rparr>"
  have s: "sort_and_dedupe [?a, ?v, ?b] = [?v, ?b]"
    by code_simp
  have r: "resolve_media_candidates plain_env no_replies ''i.pinimg.com/originals/ab/cd.jpg''
             = Inr [?o]"
    by (rule resolve_originals)
  have k: "cand_key ?b = (ImageMedia, ''https://i.pinimg.com/a.jpg'')"
    by (simp add: cand_key_def)
  note t = sort_and_dedupe_sorted_unique_best
             [of "[?a, ?v, ?b]" plain_env no_replies "''i.pinimg.com/originals/ab/cd.jpg''"]
  from t s have "cand_quality_score ?b
          = Max (cand_quality_score ` {d \<in> set [?a, ?v, ?b]. cand_key d = cand_key ?b})"
    by simp
  then have m: "(10300::int)
          = Max (cand_quality_score `
              {d \<in> set [?a, ?v, ?b]. cand_key d = (ImageMedia, ''https://i.pinimg.com/a.jpg'')})"
    using k by simp
  from t r have d: "distinct (map cand_key [?o])"
    by blast
  from s m r d show ?thesis by blast
qed

section \<open>Scores of videos and images\<close>

text \<open>
  Claim C7, as amended. A video scores at least 19550, and an image at most 10300 plus
  the width and height read from its first path segment; so the score of a video is
  strictly greater than the score of an image whenever that width plus height is below
  9250 (it is 0 when the first segment is no resize marker).
\<close>

theorem video_outranks_image_of_bounded_size:
  "score_video bh video_url video_hint = Inr sv \<Longrightarrow>
   score_image bh image_url image_hint = Inr si \<Longrightarrow>
   urlparse bh image_url = Inr parsed \<Longrightarrow>
   size_bonus (path_segments (lower (path parsed))) = Inr bonus \<Longrightarrow>
   bonus < 9250 \<Longrightarrow>
   19550 \<le> sv \<and> si \<le> 10300 + bonus \<and> si < sv"
  using score_video_lower_bound [of bh video_url video_hint sv]
        score_image_upper_bound [of bh image_url image_hint si parsed bonus]
  by simp

theorem video_outranks_image_of_bounded_size_witness:
  "score_video any_bracketed_host ''https://v1.pinimg.com/videos/mc/hls/ab/cd.m3u8'' [] = Inr 19550
   \<and> score_image any_bracketed_host ''https://i.pinimg.com/736x/aa/bb/cc.jpg'' ''orig'' = Inr 11772
   \<and> size_bonus (path_segments (lower ''/736x/aa/bb/cc.jpg'')) = Inr 1472
   \<and> (1472::int) < 9250 \<and> (11772::int) < 19550"
proof -
  have v: "score_video any_bracketed_host ''https://v1.pinimg.com/videos/mc/hls/ab/cd.m3u8'' []
             = Inr 19550"
    by code_simp
  have i: "score_image any_bracketed_host ''https://i.pinimg.com/736x/aa/bb/cc.jpg'' ''orig''
             = Inr 11772"
    by code_simp
  have p: "urlparse any_bracketed_host ''https://i.pinimg.com/736x/aa/bb/cc.jpg''
             = Inr \<lparr>scheme = ''https'', netloc = ''i.pinimg.com'', path = ''/736x/aa/bb/cc.jpg'',
                    params = [], query = [], fragment = []\<rparr>"
    by code_simp
  have b: "size_bonus (path_segments (lower ''/736x/aa/bb/cc.jpg'')) = Inr 1472"
    by code_simp
  have "(11772::int) < 19550"
    using video_outranks_image_of_bounded_size [OF v i p] b by simp
  with v i b show ?thesis by simp
qed

theorem video_outranks_image_counterexample:
  "score_video any_bracketed_host ''https://v1.pinimg.com/videos/mc/720p/ab/cd.mp4'' ''V_720P''
     = Inr 21940
   \<and> score_image any_bracketed_host ''https://i.pinimg.com/20000x/aa/bb/cc.jpg'' [] = Inr 41300
   \<and> \<not> ((21940::int) > 41300)"
  by code_simp

section \<open>The item-info payload of the end-to-end scenario\<close>

text \<open>
  Claim C2, as amended. For an item-info payload whose first item has the images
  dictionary with the single entry \<open>736x\<close> for
  \<open>https://i.pinimg.com/736x/aa/bb/cc.jpg\<close>, no videos, no story data and no video flag,
  \<open>_fetch_pin_api_candidates\<close> does not raise and returns exactly two image candidates:
  first the rewrite to \<open>/originals/aa/bb/cc.jpg\<close> with score 10300, then the \<open>736x\<close> URL
  itself with score 2772. This holds for every pin id and every runtime.
\<close>

theorem api_images_736x_two_candidates:
  "\<not> http_error st \<Longrightarrow>
   dict_get obj ''data'' = JList (JDict pin_data # others) \<Longrightarrow>
   dict_get pin_data ''images''
     = JDict [(''736x'', JDict [(''url'', JStr ''https://i.pinimg.com/736x/aa/bb/cc.jpg'')])] \<Longrightarrow>
   dict_get pin_data ''videos'' = JNull \<Longrightarrow>
   dict_get pin_data ''story_pin_data'' = JNull \<Longrightarrow>
   \<not> truthy (dict_get pin_data ''is_video'') \<Longrightarrow>
   fetch_pin_api_candidates E pin_id (Reply u st txt (Some (JDict obj)))
     = Inr [\<lparr>cand_url = ''https://i.pinimg.com/originals/aa/bb/cc.jpg'',
              cand_media_type = ImageMedia, cand_quality_score = 10300,
              cand_source = ''api-images''\<rparr>,
            \<lparr>cand_url = ''https://i.pinimg.com/736x/aa/bb/cc.jpg'',
              cand_media_type = ImageMedia, cand_quality_score = 2772,
              cand_source = ''api-images''\<rparr>]"
  by (rule fetch_pin_api_736x)

theorem api_images_736x_two_candidates_witness:
  "\<not> http_error 200
   \<and> fetch_pin_api_candidates plain_env ''123456789012345678''
       (Reply ''https://api.pinterest.com/v3/pidgets/pins/info/?pin_ids=123456789012345678''
          200 []
          (Some (JDict [(''status'', JStr ''success''),
                        (''data'', JList [JDict
                           [(''id'', JStr ''123456789012345678''),
                            (''is_video'', JBool False),
                            (''images'', JDict [(''736x'',
                               JDict [(''url'', JStr ''https://i.pinimg.com/736x/aa/bb/cc.jpg'')])])]])])))
     = Inr [\<lparr>cand_url = ''https://i.pinimg.com/originals/aa/bb/cc.jpg'',
              cand_media_type = ImageMedia, cand_quality_score = 10300,
              cand_source = ''api-images''\<rparr>,
            \<lparr>cand_url = ''https://i.pinimg.com/736x/aa/bb/cc.jpg'',
              cand_media_type = ImageMedia, cand_quality_score = 2772,
              cand_source = ''api-images''\<rparr>]"
proof -
  have h: "\<not> http_error 200"
    by (simp add: http_error_def)
  show ?thesis
    using h api_images_736x_two_candidates
            [of 200 "[(''status'', JStr ''success''),
                      (''data'', JList [JDict
                         [(''id'', JStr ''123456789012345678''),
                          (''is_video'', JBool False),
                          (''images'', JDict [(''736x'',
                             JDict [(''url'', JStr ''https://i.pinimg.com/736x/aa/bb/cc.jpg'')])])]])]"
                "[(''id'', JStr ''123456789012345678''),
                  (''is_video'', JBool False),
                  (''images'', JDict [(''736x'',
                     JDict [(''url'', JStr ''https://i.pinimg.com/736x/aa/bb/cc.jpg'')])])]"
                "[]" plain_env "''123456789012345678''"]
    by (simp add: dict_get_def)
qed

theorem api_images_736x_counterexample:
  "fetch_pin_api_candidates plain_env ''1''
     (Reply [] 200 []
        (Some (JDict [(''data'', JList [JDict
           [(''images'', JDict [(''736x'',
               JDict [(''url'', JStr ''https://i.pinimg.com/736x/aa/bb/cc.jpg'')])])]])])))
   = Inr [\<lparr>cand_url = ''https://i.pinimg.com/originals/aa/bb/cc.jpg'',
            cand_media_type = ImageMedia, cand_quality_score = 10300,
            cand_source = ''api-images''\<rparr>,
          \<lparr>cand_url = ''https://i.pinimg.com/736x/aa/bb/cc.jpg'',
            cand_media_type = ImageMedia, cand_quality_score = 2772,
            cand_source = ''api-images''\<rparr>]
   \<and> length [\<lparr>cand_url = ''https://i.pinimg.com/originals/aa/bb/cc.jpg'',
                cand_media_type = ImageMedia, cand_quality_score = 10300,
                cand_source = ''api-images''\<rparr>,
              \<lparr>cand_url = ''https://i.pinimg.com/736x/aa/bb/cc.jpg'',
                cand_media_type = ImageMedia, cand_quality_score = 2772,
                cand_source = ''api-images''\<rparr>] \<noteq> 1"
  using fetch_pin_api_736x
          [of 200 "[(''data'', JList [JDict
                      [(''images'', JDict [(''736x'',
                         JDict [(''url'', JStr ''https://i.pinimg.com/736x/aa/bb/cc.jpg'')])])]])]"
              "[(''images'', JDict [(''736x'',
                  JDict [(''url'', JStr ''https://i.pinimg.com/736x/aa/bb/cc.jpg'')])])]"
              "[]" plain_env "''1''" "[]" "[]"]
  by (simp add: dict_get_def http_error_def)

section \<open>Ranking of the originals rewrite\<close>

text \<open>
  Claim C3, on the direct fast path. For the URL
  \<open>https://i.pinimg.com/236x/abc/def.jpg\<close> the resolver returns the rewrite to
  \<open>/originals/abc/def.jpg\<close> as well, but behind the \<open>236x\<close> URL: the fast path scores
  both variants with the size hint \<open>orig\<close>, so both get the bonus of 9000 and the width
  and height of the \<open>236x\<close> segment decide. With the size key \<open>236x\<close> as the hint, as on
  the private API path, the same two variants are ranked with the rewrite first.
\<close>

theorem direct_236x_outranks_originals:
  "resolve_media_candidates E net ''https://i.pinimg.com/236x/abc/def.jpg''
   = Inr [\<lparr>cand_url = ''https://i.pinimg.com/236x/abc/def.jpg'',
            cand_media_type = ImageMedia, cand_quality_score = 10772,
            cand_source = ''direct''\<rparr>,
          \<lparr>cand_url = ''https://i.pinimg.com/originals/abc/def.jpg'',
            cand_media_type = ImageMedia, cand_quality_score = 10300,
            cand_source = ''direct''\<rparr>]
   \<and> bind_ok (build_candidates bh ''https://i.pinimg.com/236x/abc/def.jpg''
                ImageMedia ''api-images'' ''236x'') (\<lambda>candidates. Inr (sort_and_dedupe candidates))
   = Inr [\<lparr>cand_url = ''https://i.pinimg.com/originals/abc/def.jpg'',
            cand_media_type = ImageMedia, cand_quality_score = 10300,
            cand_source = ''api-images''\<rparr>,
          \<lparr>cand_url = ''https://i.pinimg.com/236x/abc/def.jpg'',
            cand_media_type = ImageMedia, cand_quality_score = 1772,
            cand_source = ''api-images''\<rparr>]"
  by (simp add: resolve_media_candidates_def is_valid_http_url_def normalize_url_236x
        urlparse_236x infer_236x pinimg_host build_236x_direct build_236x_api
        sort_236x_direct sort_236x_api)

section \<open>The outcomes of the resolver\<close>

text \<open>
  Claim C5, as amended. \<open>resolve_media_candidates\<close> never returns an empty list. It
  raises \<open>ResolutionError\<close> exactly when the normalised input is not a valid http(s) URL,
  or when the input is valid, the page was fetched, and neither fast path, nor the
  private API, nor the HTML scraping with the oEmbed merge found a candidate. When the
  input is valid and not a direct media URL and the fetch of the page fails, it raises
  the HTTP client's \<open>RequestException\<close> instead, and only then.
\<close>

theorem resolve_media_candidates_outcomes:
  "(\<forall>out. resolve_media_candidates E net pin_url = Inr out \<longrightarrow> out \<noteq> [])
   \<and> (\<forall>msg. resolve_media_candidates E net pin_url = Inl (ResolutionError msg) \<longleftrightarrow>
          (\<not> is_valid_http_url (bracketed_host_ok E) (normalize_url pin_url)
           \<and> msg = ''Invalid URL format.'')
          \<or> (is_valid_http_url (bracketed_host_ok E) (normalize_url pin_url)
             \<and> all_strategies_empty E net pin_url
             \<and> msg = ''Could not detect image or video media on this Pinterest page.''))
   \<and> (resolve_media_candidates E net pin_url = Inl RequestException \<longleftrightarrow>
          is_valid_http_url (bracketed_host_ok E) (normalize_url pin_url)
          \<and> fast_path (bracketed_host_ok E) (normalize_url pin_url) = Inr None
          \<and> (case page_reply net of
                Failed \<Rightarrow> True
              | Reply final_url st body js \<Rightarrow> http_error st))"
  using resolve_nonempty [of E net pin_url] resolve_ResolutionError_iff [of E net pin_url]
        resolve_RequestException_iff [of E net pin_url]
  by blast

theorem resolve_media_candidates_outcomes_witness:
  "resolve_media_candidates plain_env no_replies ''i.pinimg.com/originals/ab/cd.jpg''
     = Inr [\<lparr>cand_url = ''https://i.pinimg.com/originals/ab/cd.jpg'',
              cand_media_type = ImageMedia, cand_quality_score = 10300,
              cand_source = ''direct''\<rparr>]
   \<and> [\<lparr>cand_url = ''https://i.pinimg.com/originals/ab/cd.jpg'',
         cand_media_type = ImageMedia, cand_quality_score = 10300,
         cand_source = ''direct''\<rparr>] \<noteq> []
   \<and> resolve_media_candidates plain_env no_replies ''ftp://example.com/a.jpg''
       = Inl (ResolutionError ''Invalid URL format.'')
   \<and> resolve_media_candidates plain_env empty_page ''https://www.pinterest.com/pin/1/''
       = Inl (ResolutionError ''Could not detect image or video media on this Pinterest page.'')
   \<and> resolve_media_candidates plain_env no_replies ''https://www.pinterest.com/pin/1/''
       = Inl RequestException"
proof -
  have bh: "bracketed_host_ok plain_env = any_bracketed_host"
    by (simp add: plain_env_def)
  have 1: "resolve_media_candidates plain_env no_replies ''i.pinimg.com/originals/ab/cd.jpg''
     = Inr [\<lparr>cand_url = ''https://i.pinimg.com/originals/ab/cd.jpg'',
              cand_media_type = ImageMedia, cand_quality_score = 10300,
              cand_source = ''direct''\<rparr>]"
    by (rule resolve_originals)
  have 2: "[\<lparr>cand_url = ''https://i.pinimg.com/originals/ab/cd.jpg'',
         cand_media_type = ImageMedia, cand_quality_score = 10300,
         cand_source = ''direct''\<rparr>] \<noteq> []"
    using 1 resolve_media_candidates_outcomes
            [of plain_env no_replies "''i.pinimg.com/originals/ab/cd.jpg''"]
    by blast
  have 3: "resolve_media_candidates plain_env no_replies ''ftp://example.com/a.jpg''
       = Inl (ResolutionError ''Invalid URL format.'')"
    using resolve_media_candidates_outcomes [of plain_env no_replies "''ftp://example.com/a.jpg''"]
          ftp_url_invalid bh
    by simp
  have 4: "resolve_media_candidates plain_env empty_page ''https://www.pinterest.com/pin/1/''
       = Inl (ResolutionError ''Could not detect image or video media on this Pinterest page.'')"
    using resolve_media_candidates_outcomes
            [of plain_env empty_page "''https://www.pinterest.com/pin/1/''"]
          pin_page_url pin_page_exhausted bh
    by simp
  have 5: "resolve_media_candidates plain_env no_replies ''https://www.pinterest.com/pin/1/''
       = Inl RequestException"
    using resolve_media_candidates_outcomes
            [of plain_env no_replies "''https://www.pinterest.com/pin/1/''"]
          pin_page_url bh
    by (simp add: no_replies_def)
  from 1 2 3 4 5 show ?thesis by blast
qed

theorem resolve_media_candidates_counterexample:
  "resolve_media_candidates plain_env
     (no_replies\<lparr> page_reply := Reply ''https://www.pinterest.com/pin/1/'' 503 [] None \<rparr>)
     ''https://www.pinterest.com/pin/1/''
   = Inl RequestException"
proof -
  have "bracketed_host_ok plain_env = any_bracketed_host"
    by (simp add: plain_env_def)
  then show ?thesis
    by (simp add: resolve_flat pin_page_url no_replies_def http_error_def)
qed

section \<open>The account enumerator\<close>

text \<open>
  Claim C4. In every run of the enumerator, whatever the endpoint answers and whether
  or not the run finishes, no cursor is posted to the paginated endpoint twice; the
  same holds of the loop from any bookmark and any collected list. If the answer to the
  request for a cursor names that same cursor as the next one, no further request is
  sent (the cursor of the second page equals the cursor of the first page, and the
  pagination stops after the first page). The loop sends nothing when it cannot
  continue, which is the case exactly when \<open>max_pins\<close> is positive and that many URLs are
  collected, or the bookmark is not a string, is empty, or is the sentinel \<open>-end-\<close>.
\<close>

theorem pagination_never_repeats_a_cursor:
  "distinct (fst (collect_profile_pin_urls E page replies profile_url0 max_pins))
   \<and> distinct (sent (paginate replies bookmark max_pins collected {} []))
   \<and> (\<forall>b reply later page_data.
          can_continue_pagination (JStr b) max_pins (length collected)
          \<and> fetch_user_pins_page reply = Inr (page_data, b)
          \<longrightarrow> sent (paginate (reply # later) (JStr b) max_pins collected {} []) = [b])
   \<and> (\<not> can_continue_pagination bookmark max_pins (length collected)
        \<longrightarrow> paginate replies bookmark max_pins collected {} []
              = \<lparr>sent = [], outcome = Some (Inr collected)\<rparr>)
   \<and> (can_continue_pagination bookmark max_pins (length collected) \<longleftrightarrow>
          \<not> (max_pins > 0 \<and> int (length collected) \<ge> max_pins)
          \<and> (\<exists>b. bookmark = JStr b \<and> b \<noteq> [] \<and> b \<noteq> ''-end-''))"
proof (intro conjI allI impI)
  show "distinct (fst (collect_profile_pin_urls E page replies profile_url0 max_pins))"
    by (rule collect_sent_distinct)
  show "distinct (sent (paginate replies bookmark max_pins collected {} []))"
    by (rule paginate_sent_distinct) simp_all
  show "can_continue_pagination bookmark max_pins (length collected) \<longleftrightarrow>
          \<not> (max_pins > 0 \<and> int (length collected) \<ge> max_pins)
          \<and> (\<exists>b. bookmark = JStr b \<and> b \<noteq> [] \<and> b \<noteq> ''-end-'')"
    by (rule can_continue_pagination_iff)
next
  fix b reply later page_data
  assume "can_continue_pagination (JStr b) max_pins (length collected)
          \<and> fetch_user_pins_page reply = Inr (page_data, b)"
  then show "sent (paginate (reply # later) (JStr b) max_pins collected {} []) = [b]"
    using paginate_repeated_cursor [of b max_pins collected "{}" reply page_data later "[]"]
    by simp
next
  assume "\<not> can_continue_pagination bookmark max_pins (length collected)"
  then show "paginate replies bookmark max_pins collected {} []
              = \<lparr>sent = [], outcome = Some (Inr collected)\<rparr>"
    by (rule paginate_halts)
qed

theorem pagination_never_repeats_a_cursor_witness:
  "fst (collect_profile_pin_urls profile_env profile_page [same_cursor_reply, same_cursor_reply]
          ''pinterest.com/alice/'' 0) = [''B1'']
   \<and> distinct [''B1'']
   \<and> can_continue_pagination (JStr ''B1'') 0 (length [''https://www.pinterest.com/pin/11/''])
   \<and> fetch_user_pins_page same_cursor_reply = Inr ([JDict [(''id'', JStr ''33'')]], ''B1'')
   \<and> sent (paginate [same_cursor_reply, same_cursor_reply] (JStr ''B1'') 0
               [''https://www.pinterest.com/pin/11/''] {} []) = [''B1'']
   \<and> \<not> can_continue_pagination (JStr ''-end-'') 0 (length [''https://www.pinterest.com/pin/11/''])
   \<and> paginate [same_cursor_reply] (JStr ''-end-'') 0 [''https://www.pinterest.com/pin/11/''] {} []
       = \<lparr>sent = [], outcome = Some (Inr [''https://www.pinterest.com/pin/11/''])\<rparr>"
proof -
  have f: "fst (collect_profile_pin_urls profile_env profile_page
                  [same_cursor_reply, same_cursor_reply] ''pinterest.com/alice/'' 0) = [''B1'']"
    by (simp add: alice_collect_all)
  have c: "can_continue_pagination (JStr ''B1'') 0 (length [''https://www.pinterest.com/pin/11/''])"
    by (simp add: can_continue_pagination_def)
  have n: "\<not> can_continue_pagination (JStr ''-end-'') 0
               (length [''https://www.pinterest.com/pin/11/''])"
    by (simp add: can_continue_pagination_def)
  note t1 = pagination_never_repeats_a_cursor
              [of profile_env profile_page "[same_cursor_reply, same_cursor_reply]"
                  "''pinterest.com/alice/''" 0 "JStr ''B1''"
                  "[''https://www.pinterest.com/pin/11/'']"]
  note t2 = pagination_never_repeats_a_cursor
              [of profile_env profile_page "[same_cursor_reply]"
                  "''pinterest.com/alice/''" 0 "JStr ''-end-''"
                  "[''https://www.pinterest.com/pin/11/'']"]
  from t1 f have d: "distinct [''B1'']" by simp
  from t1 c alice_fetch
  have s: "sent (paginate [same_cursor_reply, same_cursor_reply] (JStr ''B1'') 0
                   [''https://www.pinterest.com/pin/11/''] {} []) = [''B1'']"
    by blast
  from t2 n
  have h: "paginate [same_cursor_reply] (JStr ''-end-'') 0
             [''https://www.pinterest.com/pin/11/''] {} []
           = \<lparr>sent = [], outcome = Some (Inr [''https://www.pinterest.com/pin/11/''])\<rparr>"
    by blast
  from f d c alice_fetch s n h show ?thesis by blast
qed

text \<open>
  Claim C6, as amended. In every successful result of the enumerator,
  \<open>discovered_count\<close> is the length of the returned \<open>pin_urls\<close>, that is, the number of
  deduplicated URLs after the truncation to a positive \<open>max_pins\<close>; the URLs are
  pairwise different, and with a positive \<open>max_pins\<close> the count never exceeds it.
\<close>

theorem discovered_count_is_returned_length:
  "collect_profile_pin_urls E page replies profile_url0 max_pins = (posted, Some (Inr r)) \<Longrightarrow>
   discovered_count r = int (length (pin_urls r))
   \<and> distinct (pin_urls r)
   \<and> (0 < max_pins \<longrightarrow> discovered_count r \<le> max_pins)"
  using collect_counted [of E page replies profile_url0 max_pins posted r]
  unfolding counted_def by blast

theorem discovered_count_is_returned_length_witness:
  "collect_profile_pin_urls profile_env profile_page [same_cursor_reply]
     ''pinterest.com/alice/'' 1
   = ([],
      Some (Inr \<lparr>profile_url = ''https://www.pinterest.com/alice/'', profile_username = ''alice'',
                  pin_urls = [''https://www.pinterest.com/pin/11/''],
                  discovered_count = 1\<rparr>))
   \<and> dedupe_urls any_bracketed_host
         [''https://www.pinterest.com/pin/11/'', ''https://www.pinterest.com/pin/22/'']
       = Inr [''https://www.pinterest.com/pin/11/'', ''https://www.pinterest.com/pin/22/'']
   \<and> truncate_to 1 [''https://www.pinterest.com/pin/11/'', ''https://www.pinterest.com/pin/22/'']
       = [''https://www.pinterest.com/pin/11/'']
   \<and> (1::int) = int (length [''https://www.pinterest.com/pin/11/''])
   \<and> distinct [''https://www.pinterest.com/pin/11/'']
   \<and> (0::int) < 1 \<and> (1::int) \<le> 1"
  using discovered_count_is_returned_length
          [OF alice_collect_one [of "[same_cursor_reply]"]]
        alice_collect_one [of "[same_cursor_reply]"] alice_dedupe2
  by (simp add: truncate_to_def)

theorem discovered_count_counterexample:
  "collect_profile_pin_urls profile_env profile_page [same_cursor_reply]
     ''pinterest.com/alice/'' 1
   = ([],
      Some (Inr \<lparr>profile_url = ''https://www.pinterest.com/alice/'', profile_username = ''alice'',
                  pin_urls = [''https://www.pinterest.com/pin/11/''],
                  discovered_count = 1\<rparr>))
   \<and> outcome (paginate [same_cursor_reply] (JStr ''B1'') 1
         [''https://www.pinterest.com/pin/11/'', ''https://www.pinterest.com/pin/22/''] {} [])
       = Some (Inr [''https://www.pinterest.com/pin/11/'', ''https://www.pinterest.com/pin/22/''])
   \<and> dedupe_urls any_bracketed_host
         [''https://www.pinterest.com/pin/11/'', ''https://www.pinterest.com/pin/22/'']
       = Inr [''https://www.pinterest.com/pin/11/'', ''https://www.pinterest.com/pin/22/'']
   \<and> (1::int) \<noteq> int (length [''https://www.pinterest.com/pin/11/'',
                                  ''https://www.pinterest.com/pin/22/''])"
  by (simp add: alice_collect_one alice_paginate_one alice_dedupe2)




end
